theory Spec2Isabelle
  imports Main "HOL-Library.Word"
begin

section \<open>Bytes and fixed-width arithmetic\<close>

text \<open>
  The receive buffer \<open>rx_buf\<close> is a vector of \<open>u8\<close>; a byte is a \<^typ>\<open>char\<close> and the
  buffer a \<^typ>\<open>string\<close>. The 64-bit fields \<open>body_len\<close> and \<open>to_recv\<close> are
  \<^typ>\<open>64 word\<close>. The \<open>u32\<close> offsets into the buffer are \<^typ>\<open>nat\<close>: the buffer is
  filled from a byte queue of at most 2 GiB and indexed by \<open>int\<close>, so sums of offsets
  inside it do not wrap; every subtraction of the source that can go below zero is
  written with \<open>u32_sub\<close>, which wraps as the C does.
\<close>

abbreviation CR :: char where "CR \<equiv> CHR 0x0D"
abbreviation LF :: char where "LF \<equiv> CHR 0x0A"
abbreviation HT :: char where "HT \<equiv> CHR 0x09"
abbreviation CRLF :: string where "CRLF \<equiv> [CR, LF]"

definition u32_sub :: "nat \<Rightarrow> nat \<Rightarrow> nat" where
  "u32_sub a b = (a + 2 ^ 32 - b mod 2 ^ 32) mod 2 ^ 32"

definition s32 :: "nat \<Rightarrow> int" where
  "s32 n = (if n mod 2 ^ 32 < 2 ^ 31 then int (n mod 2 ^ 32) else int (n mod 2 ^ 32) - 2 ^ 32)"

definition u32_of_int :: "int \<Rightarrow> nat" where
  "u32_of_int i = nat (i mod 2 ^ 32)"

definition isdigit :: "char \<Rightarrow> bool" where
  "isdigit c = (of_char (CHR ''0'') \<le> (of_char c :: nat) \<and> (of_char c :: nat) \<le> of_char (CHR ''9''))"

section \<open>Enumerations and the connection record\<close>

datatype http_sm_result_t = HTTP_SM_STOP | HTTP_SM_CONTINUE | HTTP_SM_ERROR

datatype http_state_t =
    HTTP_STATE_IDLE
  | HTTP_STATE_WAIT_APP_METHOD
  | HTTP_STATE_WAIT_CLIENT_METHOD
  | HTTP_STATE_WAIT_SERVER_REPLY
  | HTTP_STATE_WAIT_APP_REPLY
  | HTTP_STATE_CLIENT_IO_MORE_DATA
  | HTTP_STATE_APP_IO_MORE_DATA

datatype http_conn_state_t =
    HTTP_CONN_STATE_LISTEN
  | HTTP_CONN_STATE_CONNECTING
  | HTTP_CONN_STATE_ESTABLISHED
  | HTTP_CONN_STATE_TRANSPORT_CLOSED
  | HTTP_CONN_STATE_APP_CLOSED
  | HTTP_CONN_STATE_CLOSED

text \<open>
  The enumerations of \<open>http.h\<close>. A handoff message is read from raw queue bytes, so its
  enum fields can hold a value outside the enumeration: the last constructor of
  \<open>http_req_method_t\<close>, \<open>http_msg_type_t\<close>, \<open>http_msg_data_type_t\<close> and
  \<open>http_status_code_t\<close> stands for such a value (for a data type, one above
  \<open>HTTP_MSG_DATA_PTR\<close>; for a status code, one at or above \<open>HTTP_N_STATUS\<close>).
  \<open>HTTP_STATUS_REGISTERED c\<close> is any registered status code that this file does not name.
\<close>

datatype http_req_method_t = HTTP_REQ_GET | HTTP_REQ_POST | HTTP_REQ_UNKNOWN

datatype http_target_form_t =
    HTTP_TARGET_ORIGIN_FORM
  | HTTP_TARGET_ABSOLUTE_FORM
  | HTTP_TARGET_AUTHORITY_FORM
  | HTTP_TARGET_ASTERISK_FORM

datatype http_status_code_t =
    HTTP_STATUS_CONTINUE
  | HTTP_STATUS_OK
  | HTTP_STATUS_MULTIPLE_CHOICES
  | HTTP_STATUS_BAD_REQUEST
  | HTTP_STATUS_INTERNAL_ERROR
  | HTTP_STATUS_NOT_IMPLEMENTED
  | HTTP_STATUS_HTTP_VERSION_NOT_SUPPORTED
  | HTTP_STATUS_REGISTERED nat
  | HTTP_STATUS_OUT_OF_RANGE

datatype http_msg_type_t = HTTP_MSG_REQUEST | HTTP_MSG_REPLY | HTTP_MSG_TYPE_UNKNOWN

datatype http_msg_data_type_t = HTTP_MSG_DATA_INLINE | HTTP_MSG_DATA_PTR | HTTP_MSG_DATA_UNKNOWN

datatype http_buffer_type_t = HTTP_BUFFER_FIFO | HTTP_BUFFER_PTR

text \<open>
  Modelled from the spec: the transmit buffer of \<open>http_buffer.c\<close>, which is not under
  src/. The spec gives it two variants (bytes inline in the app tx queue, or a pointer
  to a byte vector that the transport dereferences once), a total length and a consumed
  counter with \<open>drained + remaining = total_len\<close>.
\<close>

record http_buffer_t =
  buf_type :: http_buffer_type_t
  buf_len :: nat
  buf_offset :: nat
  buf_vec :: string

text \<open>
  The fields of \<open>http_conn_t\<close> that the state machine reads and writes;
  \<open>req_method\<close> is the field \<open>method\<close> of the source.
\<close>

record http_conn_t =
  state :: http_conn_state_t
  is_server :: bool
  http_state :: http_state_t
  req_method :: http_req_method_t
  rx_buf :: string
  rx_buf_offset :: nat
  tx_buf :: "http_buffer_t option"
  to_recv :: "64 word"
  control_data_len :: nat
  target_form :: http_target_form_t
  target_path_offset :: nat
  target_path_len :: nat
  target_query_offset :: nat
  target_query_len :: nat
  headers_offset :: nat
  headers_len :: nat
  body_offset :: nat
  body_len :: "64 word"
  status_code :: nat
  app_name :: string
  host :: string

section \<open>The byte-buffer parser\<close>

subsection \<open>v_find_index\<close>

text \<open>
  \<open>memcmp (vec + start_index, str, slen) == 0\<close>. A negative \<open>start_index\<close> reads the
  vector header in C; it arises only when \<open>http_parse_request_line\<close> searches the
  version of an eight-byte request line, where \<open>v_find_index\<close> returns \<open>-1\<close> whether
  or not that comparison succeeds. The model takes it as a mismatch.
\<close>

definition memcmp_eq :: "string \<Rightarrow> int \<Rightarrow> string \<Rightarrow> bool" where
  "memcmp_eq vec start_index str =
     (0 \<le> start_index \<and> take (length str) (drop (nat start_index) vec) = str)"

function v_find_loop :: "string \<Rightarrow> string \<Rightarrow> int \<Rightarrow> int \<Rightarrow> int" where
  "v_find_loop vec str start_index end_index =
     (if start_index \<le> end_index then
        (if memcmp_eq vec start_index str then start_index
         else v_find_loop vec str (start_index + 1) end_index)
      else - 1)"
  by pat_completeness auto
termination
  by (relation "measure (\<lambda>(vec, str, s, e). nat (e + 1 - s))") auto

declare v_find_loop.simps [simp del]

definition v_find_index :: "string \<Rightarrow> nat \<Rightarrow> nat \<Rightarrow> string \<Rightarrow> int" where
  "v_find_index vec offset num str =
     (let start_index = s32 offset;
          str' = take 16 str;
          slen = length str';
          vlen = length vec
      in if vlen \<le> slen then - 1
         else
           let end_index = s32 (vlen - slen) in
           if num \<noteq> 0 then
             (if num < slen then - 1
              else v_find_loop vec str' start_index
                     (s32 (min (u32_of_int end_index) (u32_sub (offset + num) slen))))
           else v_find_loop vec str' start_index end_index)"

subsection \<open>Request target\<close>

function query_loop :: "string \<Rightarrow> nat \<Rightarrow> nat \<Rightarrow> nat option" where
  "query_loop buf i e =
     (if i < e then (if buf ! i = CHR ''?'' then Some i else query_loop buf (i + 1) e)
      else None)"
  by pat_completeness auto
termination
  by (relation "measure (\<lambda>(buf, i, e). e - i)") auto

declare query_loop.simps [simp del]

definition http_identify_optional_query :: "http_conn_t \<Rightarrow> http_conn_t" where
  "http_identify_optional_query hc =
     (case query_loop (rx_buf hc) (target_path_offset hc)
             (target_path_offset hc + target_path_len hc) of
        None \<Rightarrow> hc
      | Some i \<Rightarrow>
          let hc1 = hc\<lparr>target_query_offset := i + 1\<rparr>;
              hc2 = hc1\<lparr>target_query_len :=
                      u32_sub (target_path_offset hc1 + target_path_len hc1)
                        (target_query_offset hc1)\<rparr>
          in hc2\<lparr>target_path_len :=
                  u32_sub (u32_sub (target_path_len hc2) (target_query_len hc2)) 1\<rparr>)"

function authority_loop :: "string \<Rightarrow> nat \<Rightarrow> nat \<Rightarrow> bool" where
  "authority_loop buf i e =
     (if i < e then
        (if buf ! i = CHR '':'' \<and> isdigit (buf ! (i + 1)) then True
         else authority_loop buf (i + 1) e)
      else False)"
  by pat_completeness auto
termination
  by (relation "measure (\<lambda>(buf, i, e). e - i)") auto

declare authority_loop.simps [simp del]

text \<open>The result pairs the C return value (\<open>0\<close> or \<open>-1\<close>) with the updated record.\<close>

definition http_get_target_form :: "http_conn_t \<Rightarrow> int \<times> http_conn_t" where
  "http_get_target_form hc =
     (if rx_buf hc ! target_path_offset hc = CHR ''*'' \<and> target_path_len hc = 1 then
        (0, hc\<lparr>target_form := HTTP_TARGET_ASTERISK_FORM\<rparr>)
      else if rx_buf hc ! target_path_offset hc = CHR ''/'' then
        (0, http_identify_optional_query
              (hc\<lparr>target_path_len := u32_sub (target_path_len hc) 1,
                  target_path_offset := target_path_offset hc + 1,
                  target_form := HTTP_TARGET_ORIGIN_FORM\<rparr>))
      else if 0 < v_find_index (rx_buf hc) (target_path_offset hc) (target_path_len hc) ''://''
      then (0, http_identify_optional_query (hc\<lparr>target_form := HTTP_TARGET_ABSOLUTE_FORM\<rparr>))
      else if authority_loop (rx_buf hc) (target_path_offset hc)
                (target_path_offset hc + target_path_len hc)
      then (0, hc\<lparr>target_form := HTTP_TARGET_AUTHORITY_FORM\<rparr>)
      else (- 1, hc))"

subsection \<open>Request line\<close>

text \<open>
  A parse function of the source returns \<open>-1\<close> after writing a status code through its
  \<open>ec\<close> parameter, or \<open>0\<close>; the model returns \<open>Some ec\<close> or \<open>None\<close>, with the
  record as the function left it. The method test
  \<open>hc->rx_buf[method_offset] - 'A' <= 'Z' - 'A'\<close> is evaluated in \<open>int\<close>, to which C
  promotes the byte.
\<close>

definition http_parse_request_line ::
  "http_conn_t \<Rightarrow> http_status_code_t option \<times> http_conn_t" where
  "http_parse_request_line hc0 =
     (let i = v_find_index (rx_buf hc0) 8 0 CRLF in
      if i < 0 then (Some HTTP_STATUS_BAD_REQUEST, hc0)
      else
        let hc1 = hc0\<lparr>control_data_len := nat (i + 2)\<rparr>;
            next_line_offset = control_data_len hc1
        in
        if length (rx_buf hc1) < next_line_offset + 2 then (Some HTTP_STATUS_BAD_REQUEST, hc1)
        else
          let method_offset = (if rx_buf hc1 ! 0 = CR \<and> rx_buf hc1 ! 1 = LF then 2 else 0 :: nat);
              m = (if memcmp_eq (rx_buf hc1) (int method_offset) ''GET '' then
                     Inr (HTTP_REQ_GET, method_offset + 4)
                   else if memcmp_eq (rx_buf hc1) (int method_offset) ''POST '' then
                     Inr (HTTP_REQ_POST, method_offset + 5)
                   else if int (of_char (rx_buf hc1 ! method_offset)) - int (of_char (CHR ''A''))
                             \<le> int (of_char (CHR ''Z'')) - int (of_char (CHR ''A''))
                   then Inl HTTP_STATUS_NOT_IMPLEMENTED
                   else Inl HTTP_STATUS_BAD_REQUEST)
          in
          case m of
            Inl ec \<Rightarrow> (Some ec, hc1)
          | Inr (meth, tpo) \<Rightarrow>
              let hc2 = hc1\<lparr>req_method := meth, target_path_offset := tpo\<rparr>;
                  j = v_find_index (rx_buf hc2) (u32_sub next_line_offset 11) 11 '' HTTP/''
              in
              if j < 0 then (Some HTTP_STATUS_BAD_REQUEST, hc2)
              else if \<not> isdigit (rx_buf hc2 ! nat (j + 6)) then (Some HTTP_STATUS_BAD_REQUEST, hc2)
              else if rx_buf hc2 ! nat (j + 6) \<noteq> CHR ''1'' then
                (Some HTTP_STATUS_HTTP_VERSION_NOT_SUPPORTED, hc2)
              else
                let target_len = j - int (target_path_offset hc2) in
                if target_len < 1 then (Some HTTP_STATUS_BAD_REQUEST, hc2)
                else
                  let hc3 = hc2\<lparr>target_path_len := nat target_len,
                                 target_query_offset := 0,
                                 target_query_len := 0\<rparr>
                  in
                  case http_get_target_form hc3 of
                    (rv, hc4) \<Rightarrow>
                      if rv \<noteq> 0 then (Some HTTP_STATUS_BAD_REQUEST, hc4)
                      else (None, hc4\<lparr>rx_buf_offset := next_line_offset\<rparr>))"

subsection \<open>Status line\<close>

text \<open>
  The loop \<open>do { p++; if (p == end) return -1; } while (*p == ' ')\<close>; the third
  argument counts the bytes from \<open>p\<close> to \<open>end\<close>.
\<close>

fun skip_spaces :: "string \<Rightarrow> nat \<Rightarrow> nat \<Rightarrow> nat option" where
  "skip_spaces buf p 0 = None"
| "skip_spaces buf p (Suc n) =
     (if buf ! p = CHR '' '' then skip_spaces buf (p + 1) n else Some p)"

definition digit_val :: "char \<Rightarrow> nat" where
  "digit_val c = of_char c - of_char (CHR ''0'')"

definition http_parse_status_line :: "http_conn_t \<Rightarrow> int \<times> http_conn_t" where
  "http_parse_status_line hc0 =
     (let i = v_find_index (rx_buf hc0) 0 0 CRLF in
      if i < 0 then (- 1, hc0)
      else if i < 12 then (- 1, hc0)
      else
        let hc1 = hc0\<lparr>control_data_len := nat (i + 2)\<rparr>;
            next_line_offset = control_data_len hc1;
            buf = rx_buf hc1;
            end = nat i
        in
        if length buf < next_line_offset + 2 then (- 1, hc1)
        else if buf ! 0 \<noteq> CHR ''H'' then (- 1, hc1)
        else if buf ! 1 \<noteq> CHR ''T'' then (- 1, hc1)
        else if buf ! 2 \<noteq> CHR ''T'' then (- 1, hc1)
        else if buf ! 3 \<noteq> CHR ''P'' then (- 1, hc1)
        else if buf ! 4 \<noteq> CHR ''/'' then (- 1, hc1)
        else if buf ! 5 \<noteq> CHR ''1'' then (- 1, hc1)
        else if buf ! 6 \<noteq> CHR ''.'' then (- 1, hc1)
        else if \<not> isdigit (buf ! 7) then (- 1, hc1)
        else if buf ! 8 \<noteq> CHR '' '' then (- 1, hc1)
        else
          case skip_spaces buf 9 (end - 9) of
            None \<Rightarrow> (- 1, hc1)
          | Some p \<Rightarrow>
              if end - p < 3 then (- 1, hc1)
              else if \<not> isdigit (buf ! p) then (- 1, hc1)
              else if \<not> isdigit (buf ! (p + 1)) then (- 1, hc1)
              else if \<not> isdigit (buf ! (p + 2)) then (- 1, hc1)
              else
                let sc = 100 * digit_val (buf ! p) + 10 * digit_val (buf ! (p + 1))
                           + digit_val (buf ! (p + 2))
                in
                if sc < 100 \<or> sc > 599 then (- 1, hc1)
                else (0, hc1\<lparr>status_code := sc, rx_buf_offset := next_line_offset\<rparr>))"

subsection \<open>Headers section\<close>

definition http_identify_headers ::
  "http_conn_t \<Rightarrow> http_status_code_t option \<times> http_conn_t" where
  "http_identify_headers hc =
     (if rx_buf hc ! rx_buf_offset hc = CR \<and> rx_buf hc ! (rx_buf_offset hc + 1) = LF then
        (None, hc\<lparr>headers_len := 0, control_data_len := control_data_len hc + 2\<rparr>)
      else
        let i = v_find_index (rx_buf hc) (rx_buf_offset hc) 0 (CRLF @ CRLF) in
        if i < 0 then (Some HTTP_STATUS_BAD_REQUEST, hc)
        else
          let hc1 = hc\<lparr>headers_offset := rx_buf_offset hc\<rparr>;
              hc2 = hc1\<lparr>headers_len := nat (i - int (rx_buf_offset hc1) + 2)\<rparr>
          in (None, hc2\<lparr>control_data_len := control_data_len hc2 + (headers_len hc2 + 2)\<rparr>))"

subsection \<open>Content-Length\<close>

definition is_ws :: "char \<Rightarrow> bool" where
  "is_ws c = (c = CHR '' '' \<or> c = HT)"

text \<open>
  The loop that skips leading whitespace: \<open>p\<close> walks to \<open>end\<close> while \<open>value_len\<close>
  counts down with it, so \<open>end - p\<close> is \<open>value_len\<close> throughout and \<open>p == end\<close> is
  \<open>value_len = 0\<close>. \<open>None\<close> is the return with BadRequest; \<open>Some (p, value_len)\<close>
  is the \<open>break\<close>.
\<close>

fun skip_leading_ws :: "string \<Rightarrow> nat \<Rightarrow> nat \<Rightarrow> (nat \<times> nat) option" where
  "skip_leading_ws buf p 0 = None"
| "skip_leading_ws buf p (Suc n) =
     (if \<not> is_ws (buf ! p) then Some (p, Suc n) else skip_leading_ws buf (p + 1) n)"

text \<open>
  The loop that skips trailing whitespace, from \<open>value_start + value_len - 1\<close>
  downwards; it returns the remaining \<open>value_len\<close>. The byte at \<open>value_start\<close> is not
  whitespace when the source reaches the loop, so the loop stops with
  \<open>value_len \<ge> 1\<close> there and the first equation is never reached from the parser.
\<close>

fun skip_trailing_ws :: "string \<Rightarrow> nat \<Rightarrow> nat \<Rightarrow> nat" where
  "skip_trailing_ws buf value_start 0 = 0"
| "skip_trailing_ws buf value_start (Suc n) =
     (if is_ws (buf ! (value_start + n)) then skip_trailing_ws buf value_start n else Suc n)"

text \<open>
  The digit loop over the \<open>value_len\<close> bytes at \<open>value_start\<close>, with the running
  \<open>body_len\<close> (here \<open>blen\<close>): \<open>None\<close> is either of its two returns with BadRequest (a byte that is
  not a digit, or \<open>new_body_len < body_len\<close>).
\<close>

fun content_length_loop :: "string \<Rightarrow> 64 word \<Rightarrow> 64 word option" where
  "content_length_loop [] blen = Some blen"
| "content_length_loop (c # cs) blen =
     (if \<not> isdigit c then None
      else
        let digit = of_nat (digit_val c) :: 64 word;
            new_body_len = blen * 10 + digit
        in if new_body_len < blen then None else content_length_loop cs new_body_len)"

definition http_identify_message_body ::
  "http_conn_t \<Rightarrow> http_status_code_t option \<times> http_conn_t" where
  "http_identify_message_body hc0 =
     (let hc = hc0\<lparr>body_len := 0\<rparr> in
      if headers_len hc = 0 then (None, hc)
      else
        let i = v_find_index (rx_buf hc) (headers_offset hc) (headers_len hc) ''Content-Length:'' in
        if i < 0 then (None, hc)
        else
          let hc1 = hc\<lparr>rx_buf_offset := nat (i + 15)\<rparr>;
              j = v_find_index (rx_buf hc1) (rx_buf_offset hc1) (headers_len hc1) CRLF
          in
          if j < 0 then (Some HTTP_STATUS_BAD_REQUEST, hc1)
          else
            let value_len = j - int (rx_buf_offset hc1) in
            if value_len < 1 then (Some HTTP_STATUS_BAD_REQUEST, hc1)
            else
              case skip_leading_ws (rx_buf hc1) (rx_buf_offset hc1) (nat value_len) of
                None \<Rightarrow> (Some HTTP_STATUS_BAD_REQUEST, hc1)
              | Some (value_start, value_len1) \<Rightarrow>
                  let value_len2 = skip_trailing_ws (rx_buf hc1) value_start value_len1 in
                  if value_len2 < 1 then (Some HTTP_STATUS_BAD_REQUEST, hc1)
                  else
                    (case content_length_loop
                            (take value_len2 (drop value_start (rx_buf hc1))) 0 of
                       None \<Rightarrow> (Some HTTP_STATUS_BAD_REQUEST, hc1)
                     | Some body_len' \<Rightarrow>
                         let hc2 = hc1\<lparr>body_len := body_len'\<rparr> in
                         (None, hc2\<lparr>body_offset := headers_offset hc2 + headers_len hc2 + 2\<rparr>)))"

section \<open>Byte queues, sessions and the session layer\<close>

text \<open>
  Modelled from the spec: the byte queues of the session layer (\<open>svm_fifo.h\<close> is not
  under src/). The spec describes them as ordered byte queues of a fixed capacity with
  producer and consumer notifications. A queue holds the bytes enqueued and not yet
  dequeued, oldest first; it accepts bytes up to its capacity, an enqueue on a full
  queue fails with a negative result, \<open>svm_fifo_enqueue\<close> enqueues as many bytes as
  fit, and \<open>svm_fifo_enqueue_segments\<close> without \<open>allow_partial\<close> enqueues all or
  nothing. \<open>svm_fifo_segments\<close> with one segment yields the oldest \<open>max_len\<close>
  bytes as that segment.
\<close>

record svm_fifo_t =
  fifo_data :: string
  fifo_size :: nat
  has_event :: bool
  want_deq_ntf :: bool

definition svm_fifo_max_dequeue :: "svm_fifo_t \<Rightarrow> nat" where
  "svm_fifo_max_dequeue f = length (fifo_data f)"

definition svm_fifo_max_enqueue :: "svm_fifo_t \<Rightarrow> nat" where
  "svm_fifo_max_enqueue f = fifo_size f - length (fifo_data f)"

definition svm_fifo_is_empty :: "svm_fifo_t \<Rightarrow> bool" where
  "svm_fifo_is_empty f = (fifo_data f = [])"

definition svm_fifo_peek :: "svm_fifo_t \<Rightarrow> nat \<Rightarrow> nat \<Rightarrow> string" where
  "svm_fifo_peek f off len = take len (drop off (fifo_data f))"

definition svm_fifo_dequeue :: "svm_fifo_t \<Rightarrow> nat \<Rightarrow> string \<times> svm_fifo_t" where
  "svm_fifo_dequeue f len = (take len (fifo_data f), f\<lparr>fifo_data := drop len (fifo_data f)\<rparr>)"

definition svm_fifo_dequeue_drop :: "svm_fifo_t \<Rightarrow> nat \<Rightarrow> svm_fifo_t" where
  "svm_fifo_dequeue_drop f len = f\<lparr>fifo_data := drop len (fifo_data f)\<rparr>"

definition svm_fifo_dequeue_drop_all :: "svm_fifo_t \<Rightarrow> svm_fifo_t" where
  "svm_fifo_dequeue_drop_all f = f\<lparr>fifo_data := []\<rparr>"

definition SVM_FIFO_EFULL :: int where
  "SVM_FIFO_EFULL = - 2"

definition svm_fifo_enqueue :: "svm_fifo_t \<Rightarrow> string \<Rightarrow> int \<times> svm_fifo_t" where
  "svm_fifo_enqueue f src =
     (if svm_fifo_max_enqueue f = 0 then (SVM_FIFO_EFULL, f)
      else
        let n = min (length src) (svm_fifo_max_enqueue f)
        in (int n, f\<lparr>fifo_data := fifo_data f @ take n src\<rparr>))"

definition svm_fifo_enqueue_segments :: "svm_fifo_t \<Rightarrow> string list \<Rightarrow> bool \<Rightarrow> int \<times> svm_fifo_t" where
  "svm_fifo_enqueue_segments f segs allow_partial =
     (let src = concat segs in
      if svm_fifo_max_enqueue f = 0 then (SVM_FIFO_EFULL, f)
      else if svm_fifo_max_enqueue f < length src \<and> \<not> allow_partial then (SVM_FIFO_EFULL, f)
      else
        let n = min (length src) (svm_fifo_max_enqueue f)
        in (int n, f\<lparr>fifo_data := fifo_data f @ take n src\<rparr>))"

definition svm_fifo_segments :: "svm_fifo_t \<Rightarrow> nat \<Rightarrow> int \<times> string" where
  "svm_fifo_segments f max_len =
     (if fifo_data f = [] then (- 3, [])
      else (int (min max_len (length (fifo_data f))), take max_len (fifo_data f)))"

definition svm_fifo_set_event :: "svm_fifo_t \<Rightarrow> bool \<times> svm_fifo_t" where
  "svm_fifo_set_event f = (\<not> has_event f, f\<lparr>has_event := True\<rparr>)"

definition svm_fifo_unset_event :: "svm_fifo_t \<Rightarrow> svm_fifo_t" where
  "svm_fifo_unset_event f = f\<lparr>has_event := False\<rparr>"

definition svm_fifo_add_want_deq_ntf :: "svm_fifo_t \<Rightarrow> svm_fifo_t" where
  "svm_fifo_add_want_deq_ntf f = f\<lparr>want_deq_ntf := True\<rparr>"

record session_t =
  rx_fifo :: svm_fifo_t
  tx_fifo :: svm_fifo_t

text \<open>
  Calls into the session layer that leave the connection are recorded, in order, as
  events of the world the handlers run in.
\<close>

datatype session_event =
    SESSION_TRANSPORT_CLOSING_NOTIFY
  | SESSION_TRANSPORT_CLOSED_NOTIFY
  | SESSION_TRANSPORT_RESET_NOTIFY
  | VNET_DISCONNECT_SESSION
  | APP_WORKER_RX_NOTIFY
  | SESSION_ENQUEUE_NOTIFY
  | SESSION_IO_EVT_TX
  | SESSION_IO_EVT_TX_FLUSH
  | TRANSPORT_CONNECTION_DESCHEDULE
  | HTTP_CONN_TIMER_UPDATE

record transport_send_params_t =
  max_burst_size :: nat
  bytes_dequeued :: nat
  snd_f_desched :: bool

text \<open>
  The handoff message \<open>http_msg_t\<close> of \<open>http.h\<close>, with the fields of its
  \<open>data\<close> member flattened; \<open>msg_method_type\<close> and \<open>msg_code\<close> share storage in
  the C union.
\<close>

record http_msg_t =
  msg_type :: http_msg_type_t
  msg_method_type :: http_req_method_t
  msg_code :: http_status_code_t
  msg_data_type :: http_msg_data_type_t
  msg_data_len :: nat
  msg_target_form :: http_target_form_t
  msg_target_path_offset :: nat
  msg_target_path_len :: nat
  msg_target_query_offset :: nat
  msg_target_query_len :: nat
  msg_headers_offset :: nat
  msg_headers_len :: nat
  msg_body_offset :: nat
  msg_body_len :: "64 word"

text \<open>
  What the handlers take from declarations that are not under src/: the size and the
  object representation of \<open>http_msg_t\<close>, the vector a machine word read from a queue
  points to, the table \<open>http_status_code_str\<close>, the table \<open>sc_by_u16\<close> of
  \<open>http_main\<close>, and the formatted current time of its timebase.
\<close>

record http_env =
  sizeof_msg :: nat
  msg_bytes :: "http_msg_t \<Rightarrow> string"
  msg_of_bytes :: "string \<Rightarrow> http_msg_t"
  sizeof_uword :: nat
  uword_to_vec :: "string \<Rightarrow> string"
  http_status_code_str :: "http_status_code_t \<Rightarrow> string"
  sc_by_u16 :: "nat \<Rightarrow> http_status_code_t"
  timebase_now :: string

text \<open>
  The world a handler runs in: the connection, its transport session \<open>ts\<close> and
  application session \<open>as\<close>, whether \<open>app_worker_get_if_valid\<close> finds the app
  worker, the send parameters \<open>sp\<close> of the scheduler, and the events raised so far.
  \<open>http_ts_rx_callback\<close> passes a null \<open>sp\<close>; none of the three handlers it can
  dispatch reads it.
\<close>

record http_world =
  hc :: http_conn_t
  ts :: session_t
  as :: session_t
  app_wrk_valid :: bool
  sp :: transport_send_params_t
  events :: "session_event list"

definition notify :: "session_event \<Rightarrow> http_world \<Rightarrow> http_world" where
  "notify ev w = w\<lparr>events := events w @ [ev]\<rparr>"

definition http_state_change :: "http_state_t \<Rightarrow> http_world \<Rightarrow> http_world" where
  "http_state_change st w = w\<lparr>hc := (hc w)\<lparr>http_state := st\<rparr>\<rparr>"

definition http_state_is_tx_valid :: "http_conn_t \<Rightarrow> bool" where
  "http_state_is_tx_valid c =
     (http_state c = HTTP_STATE_APP_IO_MORE_DATA \<or>
      http_state c = HTTP_STATE_WAIT_APP_REPLY \<or>
      http_state c = HTTP_STATE_WAIT_APP_METHOD)"

definition http_state_is_rx_valid :: "http_conn_t \<Rightarrow> bool" where
  "http_state_is_rx_valid c =
     (http_state c = HTTP_STATE_WAIT_SERVER_REPLY \<or>
      http_state c = HTTP_STATE_CLIENT_IO_MORE_DATA \<or>
      http_state c = HTTP_STATE_WAIT_CLIENT_METHOD)"

definition http_disconnect_transport :: "http_world \<Rightarrow> http_world" where
  "http_disconnect_transport w =
     notify VNET_DISCONNECT_SESSION (w\<lparr>hc := (hc w)\<lparr>state := HTTP_CONN_STATE_CLOSED\<rparr>\<rparr>)"

section \<open>Sending and reading\<close>

definition http_error_template :: "string \<Rightarrow> string \<Rightarrow> string" where
  "http_error_template status date =
     ''HTTP/1.1 '' @ status @ CRLF @
     ''Date: '' @ date @ '' GMT'' @ CRLF @
     ''Connection: close'' @ CRLF @
     ''Content-Length: 0'' @ CRLF @ CRLF"

text \<open>The result pairs the \<open>u32\<close> the function returns with the world it leaves.\<close>

definition http_send_data :: "http_world \<Rightarrow> string \<Rightarrow> nat \<times> http_world" where
  "http_send_data w src =
     (let max_burst = 64 * 1024;
          to_send = min (length src) max_burst
      in case svm_fifo_enqueue (tx_fifo (ts w)) (take to_send src) of
           (rv, f) \<Rightarrow>
             if rv \<le> 0 then (0, w)
             else
               case svm_fifo_set_event f of
                 (newly_set, f') \<Rightarrow>
                   let w' = w\<lparr>ts := (ts w)\<lparr>tx_fifo := f'\<rparr>\<rparr>
                   in (nat rv, if newly_set then notify SESSION_IO_EVT_TX w' else w'))"

definition http_send_error :: "http_env \<Rightarrow> http_world \<Rightarrow> http_status_code_t \<Rightarrow> http_world" where
  "http_send_error env w ec0 =
     (let ec = (if ec0 = HTTP_STATUS_OUT_OF_RANGE then HTTP_STATUS_INTERNAL_ERROR else ec0);
          src = http_error_template (http_status_code_str env ec) (timebase_now env)
      in snd (http_send_data w src))"

text \<open>
  \<open>vec_validate (hc->rx_buf, max_deq - 1)\<close> grows the buffer to \<open>max_deq\<close> bytes when
  it is shorter and the peek overwrites its first \<open>max_deq\<close> bytes.
\<close>

definition http_read_message :: "http_world \<Rightarrow> int \<times> http_world" where
  "http_read_message w =
     (let max_deq = svm_fifo_max_dequeue (rx_fifo (ts w)) in
      if max_deq = 0 then (- 1, w)
      else
        (0, w\<lparr>hc := (hc w)\<lparr>rx_buf := svm_fifo_peek (rx_fifo (ts w)) 0 max_deq
                                      @ drop max_deq (rx_buf (hc w))\<rparr>\<rparr>))"

definition http_read_message_drop :: "http_world \<Rightarrow> nat \<Rightarrow> http_world" where
  "http_read_message_drop w len =
     (let f = svm_fifo_dequeue_drop (rx_fifo (ts w)) len;
          f' = (if svm_fifo_is_empty f then svm_fifo_unset_event f else f)
      in w\<lparr>ts := (ts w)\<lparr>rx_fifo := f'\<rparr>, hc := (hc w)\<lparr>rx_buf := []\<rparr>\<rparr>)"

definition http_read_message_drop_all :: "http_world \<Rightarrow> http_world" where
  "http_read_message_drop_all w =
     (let f = svm_fifo_dequeue_drop_all (rx_fifo (ts w));
          f' = (if svm_fifo_is_empty f then svm_fifo_unset_event f else f)
      in w\<lparr>ts := (ts w)\<lparr>rx_fifo := f'\<rparr>, hc := (hc w)\<lparr>rx_buf := []\<rparr>\<rparr>)"

section \<open>The receive-side handlers\<close>

definition http_msg_zero :: http_msg_t where
  "http_msg_zero =
     \<lparr>msg_type = HTTP_MSG_REQUEST, msg_method_type = HTTP_REQ_GET, msg_code = HTTP_STATUS_CONTINUE,
      msg_data_type = HTTP_MSG_DATA_INLINE, msg_data_len = 0,
      msg_target_form = HTTP_TARGET_ORIGIN_FORM,
      msg_target_path_offset = 0, msg_target_path_len = 0,
      msg_target_query_offset = 0, msg_target_query_len = 0,
      msg_headers_offset = 0, msg_headers_len = 0, msg_body_offset = 0, msg_body_len = 0\<rparr>"

subsection \<open>WAIT_CLIENT_METHOD\<close>

text \<open>
  The handler \<open>http_state_wait_client_method\<close> in three parts: the checks between
  \<open>http_read_message\<close> and the handoff, each of which jumps to the label \<open>error\<close>
  with a status code in \<open>ec\<close> (\<open>Inl\<close>); the code at the label \<open>error\<close>; and the
  handoff. The debug-only \<open>ASSERT\<close> on the result of the enqueue is not part of the
  behaviour.
\<close>

definition http_state_wait_client_method_checks ::
  "http_world \<Rightarrow> (http_status_code_t \<times> http_world) + http_world" where
  "http_state_wait_client_method_checks w =
     (if length (rx_buf (hc w)) < 8 then Inl (HTTP_STATUS_BAD_REQUEST, w)
      else
        case http_parse_request_line (hc w) of
          (Some ec, h) \<Rightarrow> Inl (ec, w\<lparr>hc := h\<rparr>)
        | (None, h1) \<Rightarrow>
            (case http_identify_headers h1 of
               (Some ec, h) \<Rightarrow> Inl (ec, w\<lparr>hc := h\<rparr>)
             | (None, h2) \<Rightarrow>
                 (case http_identify_message_body h2 of
                    (Some ec, h) \<Rightarrow> Inl (ec, w\<lparr>hc := h\<rparr>)
                  | (None, h3) \<Rightarrow>
                      let w1 = w\<lparr>hc := h3\<rparr>;
                          max_enq = svm_fifo_max_enqueue (rx_fifo (as w1))
                      in if max_enq < control_data_len h3
                         then Inl (HTTP_STATUS_INTERNAL_ERROR, w1)
                         else Inr w1)))"

definition http_state_wait_client_method_error ::
  "http_env \<Rightarrow> http_status_code_t \<Rightarrow> http_world \<Rightarrow> http_world" where
  "http_state_wait_client_method_error env ec w =
     http_disconnect_transport
       (notify SESSION_TRANSPORT_CLOSING_NOTIFY
          (http_send_error env (http_read_message_drop_all w) ec))"

definition http_state_wait_client_method_handoff :: "http_env \<Rightarrow> http_world \<Rightarrow> http_world" where
  "http_state_wait_client_method_handoff env w =
     (let c = hc w;
          max_enq = svm_fifo_max_enqueue (rx_fifo (as w));
          max_deq = min (of_nat (control_data_len c) + body_len c)
                        (of_nat (length (rx_buf c))) :: 64 word;
          len = min max_enq (unat max_deq);
          msg = http_msg_zero
                  \<lparr>msg_type := HTTP_MSG_REQUEST,
                   msg_method_type := req_method c,
                   msg_data_type := HTTP_MSG_DATA_INLINE,
                   msg_data_len := len,
                   msg_target_form := target_form c,
                   msg_target_path_offset := target_path_offset c,
                   msg_target_path_len := target_path_len c,
                   msg_target_query_offset := target_query_offset c,
                   msg_target_query_len := target_query_len c,
                   msg_headers_offset := headers_offset c,
                   msg_headers_len := headers_len c,
                   msg_body_offset := body_offset c,
                   msg_body_len := body_len c\<rparr>;
          f = snd (svm_fifo_enqueue_segments (rx_fifo (as w))
                     [msg_bytes env msg, take len (rx_buf c)] False);
          w1 = w\<lparr>as := (as w)\<lparr>rx_fifo := f\<rparr>\<rparr>;
          body_sent = u32_sub len (control_data_len c);
          w2 = w1\<lparr>hc := (hc w1)\<lparr>to_recv := body_len c - of_nat body_sent\<rparr>\<rparr>;
          w3 = (if to_recv (hc w2) = 0 then
                  http_state_change HTTP_STATE_WAIT_APP_REPLY (http_read_message_drop_all w2)
                else
                  http_state_change HTTP_STATE_CLIENT_IO_MORE_DATA (http_read_message_drop w2 len))
      in if app_wrk_valid w3 then notify APP_WORKER_RX_NOTIFY w3 else w3)"

definition http_state_wait_client_method ::
  "http_env \<Rightarrow> http_world \<Rightarrow> http_sm_result_t \<times> http_world" where
  "http_state_wait_client_method env w0 =
     (case http_read_message w0 of
        (rv, w) \<Rightarrow>
          if rv \<noteq> 0 then (HTTP_SM_STOP, w)
          else
            (case http_state_wait_client_method_checks w of
               Inl (ec, w1) \<Rightarrow> (HTTP_SM_ERROR, http_state_wait_client_method_error env ec w1)
             | Inr w1 \<Rightarrow> (HTTP_SM_STOP, http_state_wait_client_method_handoff env w1)))"

subsection \<open>WAIT_SERVER_REPLY\<close>

text \<open>
  The same three parts for \<open>http_state_wait_server_reply\<close>. Its checks pass the
  \<open>max_enq\<close> they computed, \<open>svm_fifo_max_enqueue (as->rx_fifo) - sizeof (msg)\<close> in
  \<open>u32\<close>, on to the handoff.
\<close>

definition http_state_wait_server_reply_checks ::
  "http_env \<Rightarrow> http_world \<Rightarrow> http_world + (http_world \<times> nat)" where
  "http_state_wait_server_reply_checks env w =
     (if length (rx_buf (hc w)) < 8 then Inl w
      else
        case http_parse_status_line (hc w) of
          (rv, h1) \<Rightarrow>
            if rv \<noteq> 0 then Inl (w\<lparr>hc := h1\<rparr>)
            else
              (case http_identify_headers h1 of
                 (Some ec, h) \<Rightarrow> Inl (w\<lparr>hc := h\<rparr>)
               | (None, h2) \<Rightarrow>
                   (case http_identify_message_body h2 of
                      (Some ec, h) \<Rightarrow> Inl (w\<lparr>hc := h\<rparr>)
                    | (None, h3) \<Rightarrow>
                        let w1 = w\<lparr>hc := h3\<rparr>;
                            max_enq = u32_sub (svm_fifo_max_enqueue (rx_fifo (as w1))) (sizeof_msg env)
                        in if max_enq < control_data_len h3 then Inl w1
                           else Inr (w1, max_enq))))"

definition http_state_wait_server_reply_error :: "http_world \<Rightarrow> http_world" where
  "http_state_wait_server_reply_error w =
     http_disconnect_transport
       (notify SESSION_TRANSPORT_CLOSED_NOTIFY
          (notify SESSION_TRANSPORT_CLOSING_NOTIFY (http_read_message_drop_all w)))"

definition http_state_wait_server_reply_handoff ::
  "http_env \<Rightarrow> http_world \<Rightarrow> nat \<Rightarrow> http_world" where
  "http_state_wait_server_reply_handoff env w max_enq =
     (let c = hc w;
          len = min max_enq (length (rx_buf c));
          msg = http_msg_zero
                  \<lparr>msg_type := HTTP_MSG_REPLY,
                   msg_code := sc_by_u16 env (status_code c),
                   msg_headers_offset := headers_offset c,
                   msg_headers_len := headers_len c,
                   msg_body_offset := body_offset c,
                   msg_body_len := body_len c,
                   msg_data_type := HTTP_MSG_DATA_INLINE,
                   msg_data_len := len\<rparr>;
          f = snd (svm_fifo_enqueue_segments (rx_fifo (as w))
                     [msg_bytes env msg, take len (rx_buf c)] False);
          w1 = w\<lparr>as := (as w)\<lparr>rx_fifo := f\<rparr>\<rparr>;
          w2 = http_read_message_drop w1 len;
          body_sent = u32_sub len (control_data_len c);
          w3 = w2\<lparr>hc := (hc w2)\<lparr>to_recv := body_len c - of_nat body_sent\<rparr>\<rparr>;
          w4 = (if to_recv (hc w3) = 0 then http_state_change HTTP_STATE_WAIT_APP_METHOD w3
                else http_state_change HTTP_STATE_CLIENT_IO_MORE_DATA w3)
      in if app_wrk_valid w4 then notify APP_WORKER_RX_NOTIFY w4 else w4)"

definition http_state_wait_server_reply ::
  "http_env \<Rightarrow> http_world \<Rightarrow> http_sm_result_t \<times> http_world" where
  "http_state_wait_server_reply env w0 =
     (case http_read_message w0 of
        (rv, w) \<Rightarrow>
          if rv \<noteq> 0 then (HTTP_SM_STOP, w)
          else
            (case http_state_wait_server_reply_checks env w of
               Inl w1 \<Rightarrow> (HTTP_SM_ERROR, http_state_wait_server_reply_error w1)
             | Inr (w1, max_enq) \<Rightarrow>
                 (HTTP_SM_STOP, http_state_wait_server_reply_handoff env w1 max_enq)))"

subsection \<open>CLIENT_IO_MORE_DATA\<close>

definition http_state_client_io_more_data :: "http_world \<Rightarrow> http_sm_result_t \<times> http_world" where
  "http_state_client_io_more_data w =
     (let max_deq = svm_fifo_max_dequeue (rx_fifo (ts w)) in
      if max_deq = 0 then (HTTP_SM_STOP, w)
      else
        let max_enq = svm_fifo_max_enqueue (rx_fifo (as w)) in
        if max_enq = 0 then
          (HTTP_SM_STOP, w\<lparr>as := (as w)\<lparr>rx_fifo := svm_fifo_add_want_deq_ntf (rx_fifo (as w))\<rparr>\<rparr>)
        else
          let max_len = min max_enq max_deq in
          case svm_fifo_segments (rx_fifo (ts w)) max_len of
            (len, seg) \<Rightarrow>
              if len < 0 then (HTTP_SM_STOP, w)
              else
                (case svm_fifo_enqueue_segments (rx_fifo (as w)) [seg] False of
                   (rv, f) \<Rightarrow>
                    if rv < 0 then (HTTP_SM_ERROR, w)
                    else
                      let w1 = w\<lparr>as := (as w)\<lparr>rx_fifo := f\<rparr>\<rparr>;
                          w2 = w1\<lparr>ts := (ts w1)\<lparr>rx_fifo :=
                                  svm_fifo_dequeue_drop (rx_fifo (ts w1)) (nat rv)\<rparr>\<rparr>
                      in
                      if (of_int rv :: 64 word) > to_recv (hc w2) then
                        (HTTP_SM_ERROR,
                         http_state_change HTTP_STATE_WAIT_APP_METHOD
                           (http_disconnect_transport
                              (notify SESSION_TRANSPORT_CLOSING_NOTIFY w2)))
                      else
                        let w3 = w2\<lparr>hc := (hc w2)\<lparr>to_recv := to_recv (hc w2) - of_int rv\<rparr>\<rparr>;
                            w4 = (if to_recv (hc w3) = 0 then
                                    http_state_change
                                      (if is_server (hc w3) then HTTP_STATE_WAIT_APP_REPLY
                                       else HTTP_STATE_WAIT_APP_METHOD) w3
                                  else w3);
                            w5 = (if app_wrk_valid w4 then notify APP_WORKER_RX_NOTIFY w4 else w4);
                            w6 = (if svm_fifo_max_dequeue (rx_fifo (ts w5)) \<noteq> 0
                                  then notify SESSION_ENQUEUE_NOTIFY w5 else w5)
                        in (HTTP_SM_STOP, w6)))"

section \<open>The transmit-side handlers\<close>

function format_u64 :: "nat \<Rightarrow> string" where
  "format_u64 n =
     (if n < 10 then [char_of (of_char (CHR ''0'') + n)]
      else format_u64 (n div 10) @ [char_of (of_char (CHR ''0'') + n mod 10)])"
  by pat_completeness auto
termination
  by (relation "measure id") auto

declare format_u64.simps [simp del]

text \<open>The conversion \<open>%s\<close> of \<open>format\<close> prints a C string, up to its first NUL.\<close>

definition format_s :: "string \<Rightarrow> string" where
  "format_s str = takeWhile (\<lambda>c. c \<noteq> CHR 0x00) str"

definition http_response_template :: "string \<Rightarrow> string \<Rightarrow> string \<Rightarrow> nat \<Rightarrow> string \<Rightarrow> string" where
  "http_response_template status date server len tail =
     ''HTTP/1.1 '' @ status @ CRLF @
     ''Date: '' @ date @ '' GMT'' @ CRLF @
     ''Server: '' @ server @ CRLF @
     ''Content-Length: '' @ format_u64 len @ CRLF @
     tail"

definition http_get_request_template :: "string \<Rightarrow> string \<Rightarrow> string \<Rightarrow> string \<Rightarrow> string" where
  "http_get_request_template target hst agent tail =
     ''GET '' @ format_s target @ '' HTTP/1.1'' @ CRLF @
     ''Host: '' @ hst @ CRLF @
     ''User-Agent: '' @ agent @ CRLF @
     tail"

definition http_post_request_template ::
  "string \<Rightarrow> string \<Rightarrow> string \<Rightarrow> nat \<Rightarrow> string \<Rightarrow> string" where
  "http_post_request_template target hst agent len tail =
     ''POST '' @ format_s target @ '' HTTP/1.1'' @ CRLF @
     ''Host: '' @ hst @ CRLF @
     ''User-Agent: '' @ agent @ CRLF @
     ''Content-Length: '' @ format_u64 len @ CRLF @
     tail"

definition msg_to_buf_type :: "http_msg_data_type_t \<Rightarrow> http_buffer_type_t" where
  "msg_to_buf_type t = (if t = HTTP_MSG_DATA_PTR then HTTP_BUFFER_PTR else HTTP_BUFFER_FIFO)"

text \<open>
  Modelled from the spec: \<open>http_buffer_init\<close>, \<open>http_buffer_get_segs\<close>,
  \<open>http_buffer_drain\<close> and \<open>http_buffer_is_drained\<close> of \<open>http_buffer.c\<close>. The
  pointer variant takes its machine word from the app tx queue when it is initialised;
  the inline variant reads and drains the queue itself.
\<close>

definition http_buffer_init ::
  "http_env \<Rightarrow> http_buffer_type_t \<Rightarrow> nat \<Rightarrow> http_world \<Rightarrow> http_world" where
  "http_buffer_init env t len w =
     (if t = HTTP_BUFFER_PTR then
        case svm_fifo_dequeue (tx_fifo (as w)) (sizeof_uword env) of
          (ptr, f) \<Rightarrow>
            w\<lparr>as := (as w)\<lparr>tx_fifo := f\<rparr>,
              hc := (hc w)\<lparr>tx_buf := Some \<lparr>buf_type = t, buf_len = len, buf_offset = 0,
                                             buf_vec = uword_to_vec env ptr\<rparr>\<rparr>\<rparr>
      else
        w\<lparr>hc := (hc w)\<lparr>tx_buf := Some \<lparr>buf_type = t, buf_len = len, buf_offset = 0,
                                         buf_vec = []\<rparr>\<rparr>\<rparr>)"

definition http_buffer_get_segs :: "http_world \<Rightarrow> http_buffer_t \<Rightarrow> nat \<Rightarrow> string" where
  "http_buffer_get_segs w hb max_len =
     (let n = min max_len (buf_len hb - buf_offset hb) in
      if buf_type hb = HTTP_BUFFER_PTR then take n (drop (buf_offset hb) (buf_vec hb))
      else take n (fifo_data (tx_fifo (as w))))"

definition http_buffer_drain :: "http_world \<Rightarrow> http_buffer_t \<Rightarrow> nat \<Rightarrow> nat \<times> http_world" where
  "http_buffer_drain w hb len =
     (let hb' = hb\<lparr>buf_offset := buf_offset hb + len\<rparr>;
          w1 = w\<lparr>hc := (hc w)\<lparr>tx_buf := Some hb'\<rparr>\<rparr>
      in if buf_type hb = HTTP_BUFFER_PTR then (0, w1)
         else (len, w1\<lparr>as := (as w1)\<lparr>tx_fifo := svm_fifo_dequeue_drop (tx_fifo (as w1)) len\<rparr>\<rparr>))"

definition http_buffer_is_drained :: "http_buffer_t \<Rightarrow> bool" where
  "http_buffer_is_drained hb = (buf_offset hb = buf_len hb)"

subsection \<open>WAIT_APP_REPLY\<close>

text \<open>
  The headers the app attached to a handoff message: a machine word pointing to them,
  or the bytes themselves, dequeued from the app tx queue.
\<close>

definition dequeue_app_headers :: "http_env \<Rightarrow> http_msg_t \<Rightarrow> http_world \<Rightarrow> string \<times> http_world" where
  "dequeue_app_headers env msg w =
     (if msg_headers_len msg = 0 then ([], w)
      else if msg_data_type msg = HTTP_MSG_DATA_PTR then
        case svm_fifo_dequeue (tx_fifo (as w)) (sizeof_uword env) of
          (ptr, f) \<Rightarrow> (uword_to_vec env ptr, w\<lparr>as := (as w)\<lparr>tx_fifo := f\<rparr>\<rparr>)
      else
        case svm_fifo_dequeue (tx_fifo (as w)) (msg_headers_len msg) of
          (bytes, f) \<Rightarrow> (bytes, w\<lparr>as := (as w)\<lparr>tx_fifo := f\<rparr>\<rparr>))"

definition http_state_wait_app_reply_error ::
  "http_env \<Rightarrow> http_status_code_t \<Rightarrow> http_world \<Rightarrow> http_world" where
  "http_state_wait_app_reply_error env sc w =
     http_disconnect_transport
       (notify SESSION_TRANSPORT_CLOSING_NOTIFY
          (http_state_change HTTP_STATE_WAIT_CLIENT_METHOD (http_send_error env w sc)))"

definition http_state_wait_app_reply ::
  "http_env \<Rightarrow> http_world \<Rightarrow> http_sm_result_t \<times> http_world" where
  "http_state_wait_app_reply env w0 =
     (case svm_fifo_dequeue (tx_fifo (as w0)) (sizeof_msg env) of
        (raw, f) \<Rightarrow>
          let msg = msg_of_bytes env raw;
              w = w0\<lparr>as := (as w0)\<lparr>tx_fifo := f\<rparr>\<rparr>
          in
          if msg_data_type msg = HTTP_MSG_DATA_UNKNOWN then
            (HTTP_SM_STOP, http_state_wait_app_reply_error env HTTP_STATUS_INTERNAL_ERROR w)
          else if msg_type msg \<noteq> HTTP_MSG_REPLY then
            (HTTP_SM_STOP, http_state_wait_app_reply_error env HTTP_STATUS_INTERNAL_ERROR w)
          else if msg_code msg = HTTP_STATUS_OUT_OF_RANGE then (HTTP_SM_ERROR, w)
          else
            (case dequeue_app_headers env msg w of
               (app_headers, w1) \<Rightarrow>
                 let response =
                       http_response_template (http_status_code_str env (msg_code msg))
                         (timebase_now env) (app_name (hc w1)) (unat (msg_body_len msg))
                         (if msg_headers_len msg \<noteq> 0 then [] else CRLF)
                       @ app_headers
                 in
                 (case http_send_data w1 response of
                    (sent, w2) \<Rightarrow>
                      if sent \<noteq> length response then
                        (HTTP_SM_STOP,
                         http_state_wait_app_reply_error env HTTP_STATUS_INTERNAL_ERROR w2)
                      else
                        let (sm_result, w3) =
                              (if msg_body_len msg \<noteq> 0 then
                                 (HTTP_SM_CONTINUE,
                                  http_state_change HTTP_STATE_APP_IO_MORE_DATA
                                    (http_buffer_init env (msg_to_buf_type (msg_data_type msg))
                                       (unat (msg_body_len msg)) w2))
                               else
                                 (HTTP_SM_STOP,
                                  http_state_change HTTP_STATE_WAIT_CLIENT_METHOD w2))
                        in (sm_result,
                            w3\<lparr>sp := (sp w3)\<lparr>max_burst_size :=
                                   u32_sub (max_burst_size (sp w3)) sent\<rparr>\<rparr>))))"

subsection \<open>WAIT_APP_METHOD\<close>

definition http_state_wait_app_method_error :: "http_world \<Rightarrow> http_world" where
  "http_state_wait_app_method_error w =
     http_disconnect_transport
       (notify SESSION_TRANSPORT_CLOSED_NOTIFY
          (notify SESSION_TRANSPORT_CLOSING_NOTIFY
             (w\<lparr>as := (as w)\<lparr>tx_fifo := svm_fifo_dequeue_drop_all (tx_fifo (as w))\<rparr>\<rparr>)))"

text \<open>
  For an inline target the source first sizes a vector with
  \<open>vec_validate (target_buff, msg.data.target_path_len - 1)\<close>. With a target length
  of 0 the index wraps to \<open>2^32 - 1\<close> and the call asks for 4 GiB; allocation is not
  part of the model, and what is proved of this handler beyond that point takes the
  length of an inline target to be non-zero.
\<close>

definition http_state_wait_app_method ::
  "http_env \<Rightarrow> http_world \<Rightarrow> http_sm_result_t \<times> http_world" where
  "http_state_wait_app_method env w0 =
     (case svm_fifo_dequeue (tx_fifo (as w0)) (sizeof_msg env) of
        (raw, f) \<Rightarrow>
          let msg = msg_of_bytes env raw;
              w = w0\<lparr>as := (as w0)\<lparr>tx_fifo := f\<rparr>\<rparr>
          in
          if msg_data_type msg = HTTP_MSG_DATA_UNKNOWN then
            (HTTP_SM_ERROR, http_state_wait_app_method_error w)
          else if msg_type msg \<noteq> HTTP_MSG_REQUEST then
            (HTTP_SM_ERROR, http_state_wait_app_method_error w)
          else
            (case svm_fifo_dequeue (tx_fifo (as w))
                    (if msg_data_type msg = HTTP_MSG_DATA_PTR then sizeof_uword env
                     else msg_target_path_len msg) of
               (traw, f1) \<Rightarrow>
                 let target = (if msg_data_type msg = HTTP_MSG_DATA_PTR
                               then uword_to_vec env traw else traw);
                     w1 = w\<lparr>as := (as w)\<lparr>tx_fifo := f1\<rparr>\<rparr>;
                     tail = (if msg_headers_len msg \<noteq> 0 then [] else CRLF)
                 in
                 if msg_method_type msg = HTTP_REQ_GET \<and> msg_body_len msg \<noteq> 0 then
                   (HTTP_SM_ERROR, http_state_wait_app_method_error w1)
                 else if msg_method_type msg = HTTP_REQ_POST \<and> msg_body_len msg = 0 then
                   (HTTP_SM_ERROR, http_state_wait_app_method_error w1)
                 else if msg_method_type msg \<noteq> HTTP_REQ_GET
                         \<and> msg_method_type msg \<noteq> HTTP_REQ_POST then
                   (HTTP_SM_ERROR, http_state_wait_app_method_error w1)
                 else
                   let (request0, next_state, sm_result, w2) =
                         (if msg_method_type msg = HTTP_REQ_GET then
                            (http_get_request_template target (host (hc w1)) (app_name (hc w1)) tail,
                             HTTP_STATE_WAIT_SERVER_REPLY, HTTP_SM_STOP, w1)
                          else
                            (http_post_request_template target (host (hc w1)) (app_name (hc w1))
                               (unat (msg_body_len msg)) tail,
                             HTTP_STATE_APP_IO_MORE_DATA, HTTP_SM_CONTINUE,
                             http_buffer_init env (msg_to_buf_type (msg_data_type msg))
                               (unat (msg_body_len msg)) w1))
                   in
                   (case dequeue_app_headers env msg w2 of
                      (app_headers, w3) \<Rightarrow>
                        let request = request0 @ app_headers in
                        (case http_send_data w3 request of
                           (sent, w4) \<Rightarrow>
                             if sent \<noteq> length request then
                               (HTTP_SM_ERROR, http_state_wait_app_method_error w4)
                             else (sm_result, http_state_change next_state w4)))))"

subsection \<open>APP_IO_MORE_DATA\<close>

definition HTTP_FIFO_THRESH :: nat where
  "HTTP_FIFO_THRESH = 16 * 1024"

definition http_state_app_io_more_data :: "http_world \<Rightarrow> http_sm_result_t \<times> http_world" where
  "http_state_app_io_more_data w =
     (case tx_buf (hc w) of
        None \<Rightarrow> (HTTP_SM_STOP, w)
      | Some hb \<Rightarrow>
          let max_send = min (64 * 1024) (max_burst_size (sp w));
              seg = http_buffer_get_segs w hb max_send;
              (sent, f) = (if seg \<noteq> [] then svm_fifo_enqueue_segments (tx_fifo (ts w)) [seg] True
                           else (0, tx_fifo (ts w)));
              w1 = w\<lparr>ts := (ts w)\<lparr>tx_fifo := f\<rparr>\<rparr>;
              w2 = (if sent > 0 then
                      case http_buffer_drain w1 hb (nat sent) of
                        (credit, w') \<Rightarrow>
                          w'\<lparr>sp := (sp w')\<lparr>bytes_dequeued := bytes_dequeued (sp w') + credit,
                                            max_burst_size :=
                                              u32_sub (max_burst_size (sp w')) (nat sent)\<rparr>\<rparr>
                    else w1);
              hb2 = (case tx_buf (hc w2) of Some b \<Rightarrow> b | None \<Rightarrow> hb);
              set_ev = (if sent \<noteq> 0 then svm_fifo_set_event (tx_fifo (ts w2))
                        else (False, tx_fifo (ts w2)));
              w3 = w2\<lparr>ts := (ts w2)\<lparr>tx_fifo := snd set_ev\<rparr>\<rparr>
          in
          if \<not> http_buffer_is_drained hb2 then
            let w4 = (if fst set_ev then notify SESSION_IO_EVT_TX w3 else w3) in
            if svm_fifo_max_enqueue (tx_fifo (ts w4)) < HTTP_FIFO_THRESH then
              (HTTP_SM_STOP,
               (notify TRANSPORT_CONNECTION_DESCHEDULE
                  (w4\<lparr>ts := (ts w4)\<lparr>tx_fifo := svm_fifo_add_want_deq_ntf (tx_fifo (ts w4))\<rparr>\<rparr>))
                 \<lparr>sp := (sp w4)\<lparr>snd_f_desched := True\<rparr>\<rparr>)
            else (HTTP_SM_STOP, w4)
          else
            let w4 = (if fst set_ev then notify SESSION_IO_EVT_TX_FLUSH w3 else w3);
                w5 = http_state_change
                       (if is_server (hc w4) then HTTP_STATE_WAIT_CLIENT_METHOD
                        else HTTP_STATE_WAIT_SERVER_REPLY) w4
            in (HTTP_SM_STOP, w5\<lparr>hc := (hc w5)\<lparr>tx_buf := None\<rparr>\<rparr>))"

section \<open>The dispatcher and the transport rx callback\<close>

text \<open>
  The table \<open>state_funcs\<close>: its entry for the idle state is a null pointer, and
  \<open>None\<close> stands for the call through it.
\<close>

definition state_funcs ::
  "http_env \<Rightarrow> http_state_t \<Rightarrow> (http_world \<Rightarrow> http_sm_result_t \<times> http_world) option" where
  "state_funcs env st =
     (case st of
        HTTP_STATE_IDLE \<Rightarrow> None
      | HTTP_STATE_WAIT_APP_METHOD \<Rightarrow> Some (http_state_wait_app_method env)
      | HTTP_STATE_WAIT_CLIENT_METHOD \<Rightarrow> Some (http_state_wait_client_method env)
      | HTTP_STATE_WAIT_SERVER_REPLY \<Rightarrow> Some (http_state_wait_server_reply env)
      | HTTP_STATE_WAIT_APP_REPLY \<Rightarrow> Some (http_state_wait_app_reply env)
      | HTTP_STATE_CLIENT_IO_MORE_DATA \<Rightarrow> Some http_state_client_io_more_data
      | HTTP_STATE_APP_IO_MORE_DATA \<Rightarrow> Some http_state_app_io_more_data)"

text \<open>
  Only \<open>http_state_wait_app_reply\<close> and \<open>http_state_wait_app_method\<close> return
  \<open>HTTP_SM_CONTINUE\<close>, and they leave the connection in APP_IO_MORE_DATA, whose
  handler does not: the loop of \<open>http_req_run_state_machine\<close> ends.
\<close>

lemma wait_client_method_not_continue:
  "fst (http_state_wait_client_method env w) \<noteq> HTTP_SM_CONTINUE"
  by (simp add: http_state_wait_client_method_def split: prod.split sum.split)

lemma wait_server_reply_not_continue:
  "fst (http_state_wait_server_reply env w) \<noteq> HTTP_SM_CONTINUE"
  by (simp add: http_state_wait_server_reply_def split: prod.split sum.split)

lemma client_io_more_data_not_continue:
  "fst (http_state_client_io_more_data w) \<noteq> HTTP_SM_CONTINUE"
  by (simp add: http_state_client_io_more_data_def Let_def split: prod.split)

lemma app_io_more_data_not_continue:
  "fst (http_state_app_io_more_data w) \<noteq> HTTP_SM_CONTINUE"
  by (simp add: http_state_app_io_more_data_def Let_def split: prod.split option.split)

lemma wait_app_reply_continue:
  "http_state_wait_app_reply env w = (HTTP_SM_CONTINUE, w') \<Longrightarrow>
     http_state (hc w') = HTTP_STATE_APP_IO_MORE_DATA"
  by (auto simp: http_state_wait_app_reply_def Let_def http_state_change_def
           split: prod.splits if_splits)

lemma wait_app_method_continue:
  "http_state_wait_app_method env w = (HTTP_SM_CONTINUE, w') \<Longrightarrow>
     http_state (hc w') = HTTP_STATE_APP_IO_MORE_DATA"
  by (auto simp: http_state_wait_app_method_def Let_def http_state_change_def
           split: prod.splits if_splits)

lemma state_funcs_continue:
  assumes "state_funcs env (http_state (hc w)) = Some handler"
      and "handler w = (HTTP_SM_CONTINUE, w')"
  shows "(http_state (hc w) = HTTP_STATE_WAIT_APP_REPLY
          \<or> http_state (hc w) = HTTP_STATE_WAIT_APP_METHOD)
         \<and> http_state (hc w') = HTTP_STATE_APP_IO_MORE_DATA"
  using assms wait_client_method_not_continue [of env w] wait_server_reply_not_continue [of env w]
    client_io_more_data_not_continue [of w] app_io_more_data_not_continue [of w]
  by (auto simp: state_funcs_def split: http_state_t.splits
           dest: wait_app_reply_continue wait_app_method_continue)

function http_req_run_state_machine :: "http_env \<Rightarrow> http_world \<Rightarrow> http_world option" where
  "http_req_run_state_machine env w =
     (case state_funcs env (http_state (hc w)) of
        None \<Rightarrow> None
      | Some handler \<Rightarrow>
          (case handler w of
             (res, w') \<Rightarrow>
               if res = HTTP_SM_ERROR then Some w'
               else if res = HTTP_SM_CONTINUE then http_req_run_state_machine env w'
               else Some (notify HTTP_CONN_TIMER_UPDATE w')))"
  by pat_completeness auto
termination
  apply (relation "measure (\<lambda>(env, w).
          if http_state (hc w) = HTTP_STATE_WAIT_APP_REPLY
             \<or> http_state (hc w) = HTTP_STATE_WAIT_APP_METHOD then 1 else 0)")
   apply simp
  apply (auto dest!: state_funcs_continue [OF _ sym])
  done

declare http_req_run_state_machine.simps [simp del]

definition http_ts_rx_callback :: "http_env \<Rightarrow> http_world \<Rightarrow> http_world option" where
  "http_ts_rx_callback env w =
     (if state (hc w) = HTTP_CONN_STATE_CLOSED then
        Some (w\<lparr>ts := (ts w)\<lparr>tx_fifo := svm_fifo_dequeue_drop_all (tx_fifo (ts w))\<rparr>\<rparr>)
      else if \<not> http_state_is_rx_valid (hc w) then
        Some (w\<lparr>ts := (ts w)\<lparr>tx_fifo := svm_fifo_dequeue_drop_all (tx_fifo (ts w))\<rparr>\<rparr>)
      else
        case http_req_run_state_machine env w of
          None \<Rightarrow> None
        | Some w1 \<Rightarrow>
            Some (if state (hc w1) = HTTP_CONN_STATE_TRANSPORT_CLOSED
                     \<and> svm_fifo_max_dequeue (rx_fifo (ts w1)) = 0
                  then notify SESSION_TRANSPORT_CLOSING_NOTIFY w1 else w1))"

section \<open>Concrete connections\<close>

text \<open>
  A connection record as \<open>clib_memset (hc, 0, sizeof (*hc))\<close> leaves it, and the server
  connection \<open>http_ts_accept_callback\<close> makes of it, holding \<open>buf\<close> in \<open>rx_buf\<close>.
\<close>

definition http_conn_zero :: http_conn_t where
  "http_conn_zero =
     \<lparr>state = HTTP_CONN_STATE_LISTEN, is_server = False, http_state = HTTP_STATE_IDLE,
      req_method = HTTP_REQ_GET, rx_buf = [], rx_buf_offset = 0, tx_buf = None, to_recv = 0,
      control_data_len = 0, target_form = HTTP_TARGET_ORIGIN_FORM, target_path_offset = 0,
      target_path_len = 0, target_query_offset = 0, target_query_len = 0, headers_offset = 0,
      headers_len = 0, body_offset = 0, body_len = 0, status_code = 0, app_name = [], host = []\<rparr>"

definition server_conn :: "string \<Rightarrow> http_conn_t" where
  "server_conn buf =
     http_conn_zero\<lparr>state := HTTP_CONN_STATE_ESTABLISHED, is_server := True,
                    http_state := HTTP_STATE_WAIT_CLIENT_METHOD, rx_buf := buf\<rparr>"

definition client_conn :: http_conn_t where
  "client_conn =
     http_conn_zero\<lparr>state := HTTP_CONN_STATE_ESTABLISHED, is_server := False,
                    http_state := HTTP_STATE_WAIT_SERVER_REPLY\<rparr>"

text \<open>
  An environment for evaluation: a 56-byte handoff message, an 8-byte machine word,
  the status lines the spec quotes, the hundreds buckets that \<open>http_transport_init\<close>
  writes to \<open>sc_by_u16\<close>, and \<open>msg\<close> as the message that the bytes an app enqueued
  decode to.
\<close>

definition example_status_code_str :: "http_status_code_t \<Rightarrow> string" where
  "example_status_code_str sc =
     (case sc of
        HTTP_STATUS_OK \<Rightarrow> ''200 OK''
      | HTTP_STATUS_BAD_REQUEST \<Rightarrow> ''400 Bad Request''
      | HTTP_STATUS_INTERNAL_ERROR \<Rightarrow> ''500 Internal Server Error''
      | HTTP_STATUS_NOT_IMPLEMENTED \<Rightarrow> ''501 Not Implemented''
      | HTTP_STATUS_HTTP_VERSION_NOT_SUPPORTED \<Rightarrow> ''505 HTTP Version Not Supported''
      | _ \<Rightarrow> ''100 Continue'')"

definition example_sc_by_u16 :: "nat \<Rightarrow> http_status_code_t" where
  "example_sc_by_u16 c =
     (if c < 200 then HTTP_STATUS_CONTINUE
      else if c < 300 then HTTP_STATUS_OK
      else if c < 400 then HTTP_STATUS_MULTIPLE_CHOICES
      else if c < 500 then HTTP_STATUS_BAD_REQUEST
      else HTTP_STATUS_INTERNAL_ERROR)"

definition example_env :: "http_msg_t \<Rightarrow> http_env" where
  "example_env msg =
     \<lparr>sizeof_msg = 56,
      msg_bytes = (\<lambda>m. replicate 56 (CHR ''m'')),
      msg_of_bytes = (\<lambda>raw. msg),
      sizeof_uword = 8,
      uword_to_vec = (\<lambda>ptr. []),
      http_status_code_str = example_status_code_str,
      sc_by_u16 = example_sc_by_u16,
      timebase_now = ''Thu, 01 Jan 1970 00:00:00''\<rparr>"

definition fifo_of :: "string \<Rightarrow> nat \<Rightarrow> svm_fifo_t" where
  "fifo_of bytes cap = \<lparr>fifo_data = bytes, fifo_size = cap, has_event = False, want_deq_ntf = False\<rparr>"

text \<open>
  A world around a connection \<open>c\<close>: the transport rx queue holds \<open>rx\<close>, the transport
  tx queue is empty with capacity \<open>tx_size\<close>, the app rx queue is empty with capacity
  \<open>app_rx_size\<close>, and the app tx queue holds \<open>app_tx\<close>.
\<close>

definition world_of :: "http_conn_t \<Rightarrow> string \<Rightarrow> nat \<Rightarrow> nat \<Rightarrow> string \<Rightarrow> http_world" where
  "world_of c rx tx_size app_rx_size app_tx =
     \<lparr>hc = c,
      ts = \<lparr>rx_fifo = fifo_of rx 4096, tx_fifo = fifo_of [] tx_size\<rparr>,
      as = \<lparr>rx_fifo = fifo_of [] app_rx_size, tx_fifo = fifo_of app_tx 4096\<rparr>,
      app_wrk_valid = True,
      sp = \<lparr>max_burst_size = 65536, bytes_dequeued = 0, snd_f_desched = False\<rparr>,
      events = []\<rparr>"



section \<open>Evaluating the parser\<close>

lemma skip_spaces_unfold:
  "skip_spaces buf p n =
     (if n = 0 then None else if buf ! p = CHR '' '' then skip_spaces buf (p + 1) (n - 1) else Some p)"
  by (cases n) simp_all

lemma skip_leading_ws_unfold:
  "skip_leading_ws buf p n =
     (if n = 0 then None else if \<not> is_ws (buf ! p) then Some (p, n)
      else skip_leading_ws buf (p + 1) (n - 1))"
  by (cases n) simp_all

lemma skip_trailing_ws_unfold:
  "skip_trailing_ws buf vs n =
     (if n = 0 then 0 else if is_ws (buf ! (vs + (n - 1))) then skip_trailing_ws buf vs (n - 1) else n)"
  by (cases n) simp_all

lemmas parser_eval =
  v_find_index_def s32_def u32_sub_def u32_of_int_def v_find_loop.simps memcmp_eq_def
  http_parse_request_line_def isdigit_def http_get_target_form_def
  http_identify_optional_query_def query_loop.simps authority_loop.simps
  http_identify_headers_def http_identify_message_body_def is_ws_def digit_val_def Let_def
  skip_spaces_unfold skip_leading_ws_unfold skip_trailing_ws_unfold http_parse_status_line_def

lemmas conn_eval = server_conn_def client_conn_def http_conn_zero_def

lemmas world_eval =
  world_of_def fifo_of_def example_env_def example_status_code_str_def example_sc_by_u16_def
  http_msg_zero_def svm_fifo_max_dequeue_def svm_fifo_max_enqueue_def svm_fifo_is_empty_def
  svm_fifo_peek_def svm_fifo_dequeue_def svm_fifo_dequeue_drop_def svm_fifo_dequeue_drop_all_def
  SVM_FIFO_EFULL_def svm_fifo_enqueue_def svm_fifo_enqueue_segments_def svm_fifo_segments_def
  svm_fifo_set_event_def svm_fifo_unset_event_def svm_fifo_add_want_deq_ntf_def
  notify_def http_state_change_def http_disconnect_transport_def http_error_template_def
  http_send_data_def http_send_error_def http_read_message_def http_read_message_drop_def
  http_read_message_drop_all_def

section \<open>Content-Length parsing (C1)\<close>

text \<open>
  C1. The claim: a Content-Length value above \<open>2^64 - 1\<close> is rejected with BadRequest,
  and a value within range sets \<open>body_len\<close> to the decimal value of the digits.
  The overflow test of the source, \<open>new_body_len < body_len\<close> after
  \<open>new_body_len = body_len * 10 + digit\<close>, misses a wrap that lands above the old
  value: the request below carries \<open>Content-Length: 30000000000000000000\<close>, which is
  above \<open>2^64 - 1 = 18446744073709551615\<close>, and the three parsing calls of the server
  handler accept it, with \<open>body_len = 30000000000000000000 - 2^64\<close>.
\<close>

theorem content_length_wrap_accepted:
  "fst (http_identify_message_body
         (snd (http_identify_headers
           (snd (http_parse_request_line
             (server_conn (''GET / HTTP/1.1'' @ CRLF @
                           ''Content-Length: 30000000000000000000'' @ CRLF @ CRLF))))))) = None
   \<and> body_len (snd (http_identify_message_body
         (snd (http_identify_headers
           (snd (http_parse_request_line
             (server_conn (''GET / HTTP/1.1'' @ CRLF @
                           ''Content-Length: 30000000000000000000'' @ CRLF @ CRLF)))))))) =
       11553255926290448384"
  by (simp add: parser_eval conn_eval)

section \<open>Method of the request line (C2)\<close>

lemma http_identify_optional_query_frame:
  "rx_buf (http_identify_optional_query c) = rx_buf c"
  "control_data_len (http_identify_optional_query c) = control_data_len c"
  "req_method (http_identify_optional_query c) = req_method c"
  "target_form (http_identify_optional_query c) = target_form c"
  "target_path_offset (http_identify_optional_query c) = target_path_offset c"
  by (simp_all add: http_identify_optional_query_def Let_def split: option.split)

lemma http_get_target_form_frame:
  "rx_buf (snd (http_get_target_form c)) = rx_buf c"
  "control_data_len (snd (http_get_target_form c)) = control_data_len c"
  "req_method (snd (http_get_target_form c)) = req_method c"
  by (simp_all add: http_get_target_form_def http_identify_optional_query_frame)

lemma http_get_target_form_frameD:
  "http_get_target_form c = (rv, h) \<Longrightarrow>
     rx_buf h = rx_buf c \<and> control_data_len h = control_data_len c \<and> req_method h = req_method c"
  using http_get_target_form_frame [of c] by simp

text \<open>
  What the source does with the method token, once the request line and one further
  CRLF are there: \<open>GET \<close> and \<open>POST \<close> set the method; any other token whose first
  byte is at most \<open>Z\<close> (a digit, a space and a control byte among them) fails with
  NotImplemented, and only a first byte above \<open>Z\<close> fails with BadRequest.
\<close>

lemma http_parse_request_line_method:
  assumes "0 \<le> v_find_index (rx_buf c) 8 0 CRLF"
      and "nat (v_find_index (rx_buf c) 8 0 CRLF + 2) + 2 \<le> length (rx_buf c)"
  defines "mo \<equiv> (if rx_buf c ! 0 = CR \<and> rx_buf c ! 1 = LF then 2 else 0 :: nat)"
  shows "memcmp_eq (rx_buf c) (int mo) ''GET '' \<Longrightarrow>
           req_method (snd (http_parse_request_line c)) = HTTP_REQ_GET"
    and "\<not> memcmp_eq (rx_buf c) (int mo) ''GET '' \<Longrightarrow> memcmp_eq (rx_buf c) (int mo) ''POST '' \<Longrightarrow>
           req_method (snd (http_parse_request_line c)) = HTTP_REQ_POST"
    and "\<not> memcmp_eq (rx_buf c) (int mo) ''GET '' \<Longrightarrow> \<not> memcmp_eq (rx_buf c) (int mo) ''POST '' \<Longrightarrow>
           fst (http_parse_request_line c) =
             Some (if (of_char (rx_buf c ! mo) :: nat) \<le> of_char (CHR ''Z'')
                   then HTTP_STATUS_NOT_IMPLEMENTED else HTTP_STATUS_BAD_REQUEST)"
  using assms(1,2) unfolding mo_def http_parse_request_line_def Let_def
  by (auto split: if_splits sum.splits prod.splits dest!: http_get_target_form_frameD)

text \<open>
  C2. The claim: \<open>GET \<close> sets GET, \<open>POST \<close> sets POST, any other token with an
  uppercase first byte fails with NotImplemented and a token with any other first byte
  fails with BadRequest. The source tests \<open>hc->rx_buf[method_offset] - 'A' <= 'Z' - 'A'\<close>
  in \<open>int\<close>, where a byte below \<open>A\<close> gives a negative difference: the request line
  \<open>1ET / HTTP/1.1\<close>, whose first byte is a digit, fails with NotImplemented.
\<close>

theorem method_digit_initial_not_implemented:
  "fst (http_parse_request_line (server_conn (''1ET / HTTP/1.1'' @ CRLF @ CRLF))) =
     Some HTTP_STATUS_NOT_IMPLEMENTED"
  by (simp add: parser_eval conn_eval)

section \<open>What the parser leaves alone\<close>

definition same_conn :: "http_conn_t \<Rightarrow> http_conn_t \<Rightarrow> bool" where
  "same_conn h c =
     (rx_buf h = rx_buf c \<and> state h = state c \<and> http_state h = http_state c
      \<and> is_server h = is_server c \<and> to_recv h = to_recv c)"

definition same_world :: "http_world \<Rightarrow> http_world \<Rightarrow> bool" where
  "same_world w1 w =
     (ts w1 = ts w \<and> as w1 = as w \<and> events w1 = events w
      \<and> app_wrk_valid w1 = app_wrk_valid w \<and> sp w1 = sp w \<and> same_conn (hc w1) (hc w))"

lemma same_conn_refl [simp]: "same_conn c c"
  by (simp add: same_conn_def)

lemma same_conn_trans: "same_conn h2 h1 \<Longrightarrow> same_conn h1 c \<Longrightarrow> same_conn h2 c"
  by (simp add: same_conn_def)

lemma same_conn_upd [simp]:
  "same_conn (h\<lparr>control_data_len := a\<rparr>) c = same_conn h c"
  "same_conn (h\<lparr>req_method := m\<rparr>) c = same_conn h c"
  "same_conn (h\<lparr>target_path_offset := b\<rparr>) c = same_conn h c"
  "same_conn (h\<lparr>target_path_len := d\<rparr>) c = same_conn h c"
  "same_conn (h\<lparr>target_query_offset := e\<rparr>) c = same_conn h c"
  "same_conn (h\<lparr>target_query_len := f\<rparr>) c = same_conn h c"
  "same_conn (h\<lparr>rx_buf_offset := g\<rparr>) c = same_conn h c"
  "same_conn (h\<lparr>headers_offset := i\<rparr>) c = same_conn h c"
  "same_conn (h\<lparr>headers_len := j\<rparr>) c = same_conn h c"
  "same_conn (h\<lparr>body_offset := k\<rparr>) c = same_conn h c"
  "same_conn (h\<lparr>body_len := l\<rparr>) c = same_conn h c"
  "same_conn (h\<lparr>status_code := n\<rparr>) c = same_conn h c"
  "same_conn (h\<lparr>target_form := tf\<rparr>) c = same_conn h c"
  by (simp_all add: same_conn_def)

lemma http_identify_optional_query_conn [simp]:
  "same_conn (http_identify_optional_query h) c = same_conn h c"
  by (simp add: http_identify_optional_query_def Let_def split: option.split)

lemma http_get_target_form_conn [simp]:
  "same_conn (snd (http_get_target_form h)) c = same_conn h c"
  by (simp add: http_get_target_form_def)

lemma http_parse_request_line_conn:
  "same_conn (snd (http_parse_request_line c)) c"
  "fst (http_parse_request_line c) \<noteq> Some HTTP_STATUS_OUT_OF_RANGE"
  by (simp_all add: http_parse_request_line_def Let_def split_beta split: sum.split)

lemma http_parse_status_line_conn:
  "same_conn (snd (http_parse_status_line c)) c"
  by (simp add: http_parse_status_line_def Let_def split: option.split)

lemma http_identify_headers_conn:
  "same_conn (snd (http_identify_headers c)) c"
  "fst (http_identify_headers c) \<noteq> Some HTTP_STATUS_OUT_OF_RANGE"
  by (simp_all add: http_identify_headers_def Let_def)

lemma http_identify_message_body_conn:
  "same_conn (snd (http_identify_message_body c)) c"
  "fst (http_identify_message_body c) \<noteq> Some HTTP_STATUS_OUT_OF_RANGE"
  by (simp_all add: http_identify_message_body_def Let_def split: option.split prod.split)

lemma wait_client_method_checks_frame:
  shows "http_state_wait_client_method_checks w = Inl (ec, w1) \<Longrightarrow>
           same_world w1 w \<and> ec \<noteq> HTTP_STATUS_OUT_OF_RANGE"
    and "http_state_wait_client_method_checks w = Inr w2 \<Longrightarrow>
           same_world w2 w \<and> control_data_len (hc w2) \<le> svm_fifo_max_enqueue (rx_fifo (as w))"
proof -
  obtain r1 h1 where p1: "http_parse_request_line (hc w) = (r1, h1)" by force
  obtain r2 h2 where p2: "http_identify_headers h1 = (r2, h2)" by force
  obtain r3 h3 where p3: "http_identify_message_body h2 = (r3, h3)" by force
  have f1: "same_conn h1 (hc w)" "r1 \<noteq> Some HTTP_STATUS_OUT_OF_RANGE"
    using http_parse_request_line_conn [of "hc w"] p1 by simp_all
  have f2: "same_conn h2 h1" "r2 \<noteq> Some HTTP_STATUS_OUT_OF_RANGE"
    using http_identify_headers_conn [of h1] p2 by simp_all
  have f3: "same_conn h3 h2" "r3 \<noteq> Some HTTP_STATUS_OUT_OF_RANGE"
    using http_identify_message_body_conn [of h2] p3 by simp_all
  have s2: "same_conn h2 (hc w)"
    using same_conn_trans f1(1) f2(1) by blast
  have s3: "same_conn h3 (hc w)"
    using same_conn_trans s2 f3(1) by blast
  show "http_state_wait_client_method_checks w = Inl (ec, w1) \<Longrightarrow>
          same_world w1 w \<and> ec \<noteq> HTTP_STATUS_OUT_OF_RANGE"
    using p1 p2 p3 f1 f2 f3 s2 s3
    by (auto simp: http_state_wait_client_method_checks_def Let_def same_world_def
             split: option.splits if_splits)
  show "http_state_wait_client_method_checks w = Inr w2 \<Longrightarrow>
          same_world w2 w \<and> control_data_len (hc w2) \<le> svm_fifo_max_enqueue (rx_fifo (as w))"
    using p1 p2 p3 f1 f2 f3 s2 s3
    by (auto simp: http_state_wait_client_method_checks_def Let_def same_world_def
             split: option.splits if_splits)
qed

lemma http_read_message_ok:
  assumes "http_read_message w0 = (0, w)"
  shows "ts w = ts w0" "as w = as w0" "events w = events w0"
    "app_wrk_valid w = app_wrk_valid w0" "sp w = sp w0"
    "state (hc w) = state (hc w0)" "http_state (hc w) = http_state (hc w0)"
    "is_server (hc w) = is_server (hc w0)" "to_recv (hc w) = to_recv (hc w0)"
    "rx_buf (hc w) = fifo_data (rx_fifo (ts w0))
                     @ drop (length (fifo_data (rx_fifo (ts w0)))) (rx_buf (hc w0))"
    "fifo_data (rx_fifo (ts w0)) \<noteq> []"
  using assms
  by (auto simp: http_read_message_def Let_def svm_fifo_max_dequeue_def svm_fifo_peek_def
           split: if_splits)

section \<open>Offsets of a message with a body (C5)\<close>

lemma http_parse_request_line_ok:
  assumes "http_parse_request_line c = (None, h)"
  shows "rx_buf_offset h = control_data_len h \<and> rx_buf h = rx_buf c"
  using assms unfolding http_parse_request_line_def Let_def
  by (auto split: if_splits sum.splits prod.splits dest!: http_get_target_form_frameD)

lemma http_parse_status_line_ok:
  assumes "http_parse_status_line c = (0, h)"
  shows "rx_buf_offset h = control_data_len h \<and> rx_buf h = rx_buf c"
  using assms unfolding http_parse_status_line_def Let_def
  by (auto split: if_splits option.splits)

lemma http_identify_headers_ok:
  assumes "http_identify_headers c = (None, h)"
  shows "rx_buf h = rx_buf c"
    and "headers_len h \<noteq> 0 \<Longrightarrow>
           headers_offset h = rx_buf_offset c \<and>
           control_data_len h = control_data_len c + headers_len h + 2"
  using assms unfolding http_identify_headers_def Let_def
  by (auto split: if_splits)

text \<open>
  A Content-Length header is present: the headers section is not empty and the search
  of \<open>http_identify_message_body\<close> for \<open>Content-Length:\<close> in it succeeds.
\<close>

definition has_content_length :: "http_conn_t \<Rightarrow> bool" where
  "has_content_length c =
     (headers_len c \<noteq> 0 \<and>
      0 \<le> v_find_index (rx_buf c) (headers_offset c) (headers_len c) ''Content-Length:'')"

lemma http_identify_message_body_ok:
  assumes "http_identify_message_body c = (None, h)"
  shows "rx_buf h = rx_buf c" "headers_len h = headers_len c" "headers_offset h = headers_offset c"
    "control_data_len h = control_data_len c"
    "has_content_length c \<Longrightarrow> body_offset h = headers_offset c + headers_len c + 2"
  using assms unfolding http_identify_message_body_def Let_def has_content_length_def
  by (auto split: if_splits option.splits prod.splits)

text \<open>
  C5. Whenever the parsing calls of the server handler (request line, headers, body) or
  of the client handler (status line, headers, body) all succeed on a message whose
  headers hold a Content-Length, the record they leave satisfies
  \<open>body_offset = headers_offset + headers_len + 2\<close> and
  \<open>control_data_len = body_offset\<close>.
\<close>

theorem body_offset_after_control_data:
  assumes "http_state_wait_client_method_checks w = Inr w'
           \<or> http_state_wait_server_reply_checks env w = Inr (w', max_enq)"
      and "has_content_length (hc w')"
  shows "body_offset (hc w') = headers_offset (hc w') + headers_len (hc w') + 2
         \<and> control_data_len (hc w') = body_offset (hc w')"
proof -
  have "\<exists>h1 h2. rx_buf_offset h1 = control_data_len h1
          \<and> http_identify_headers h1 = (None, h2)
          \<and> http_identify_message_body h2 = (None, hc w')"
    using assms(1)
  proof
    assume "http_state_wait_client_method_checks w = Inr w'"
    then show ?thesis
      unfolding http_state_wait_client_method_checks_def Let_def
      by (auto split: if_splits option.splits prod.splits dest: http_parse_request_line_ok)
  next
    assume "http_state_wait_server_reply_checks env w = Inr (w', max_enq)"
    then show ?thesis
      unfolding http_state_wait_server_reply_checks_def Let_def
      by (auto split: if_splits option.splits prod.splits dest: http_parse_status_line_ok)
  qed
  then obtain h1 h2 where off: "rx_buf_offset h1 = control_data_len h1"
    and hd: "http_identify_headers h1 = (None, h2)"
    and bd: "http_identify_message_body h2 = (None, hc w')"
    by blast
  note b = http_identify_message_body_ok [OF bd]
  from assms(2) have cl: "has_content_length h2"
    by (simp add: has_content_length_def b)
  then have "headers_len h2 \<noteq> 0"
    by (simp add: has_content_length_def)
  from http_identify_headers_ok(2) [OF hd this] off b cl show ?thesis
    by simp
qed

text \<open>
  The theorem at a POST request with a four-byte body: the request line takes 18
  bytes, the headers 19, and the body starts at offset 39.
\<close>

definition post_request :: string where
  "post_request = ''POST /a HTTP/1.1'' @ CRLF @ ''Content-Length: 4'' @ CRLF @ CRLF @ ''abcd''"

definition post_world :: http_world where
  "post_world = world_of (server_conn []) post_request 4096 4096 []"

definition post_world_read :: http_world where
  "post_world_read = snd (http_read_message post_world)"

definition post_world_parsed :: http_world where
  "post_world_parsed = projr (http_state_wait_client_method_checks post_world_read)"

lemmas post_eval =
  post_world_parsed_def post_world_read_def post_world_def post_request_def
  http_state_wait_client_method_checks_def has_content_length_def

lemma post_world_checks:
  "http_state_wait_client_method_checks post_world_read = Inr post_world_parsed"
  by (simp add: post_eval parser_eval world_eval conn_eval)

lemma post_world_has_content_length: "has_content_length (hc post_world_parsed)"
  by (simp add: post_eval parser_eval world_eval conn_eval)

lemma post_world_headers:
  "headers_offset (hc post_world_parsed) = 18 \<and> headers_len (hc post_world_parsed) = 19"
  by (simp add: post_eval parser_eval world_eval conn_eval)

theorem body_offset_after_control_data_witness:
  "http_state_wait_client_method_checks post_world_read = Inr post_world_parsed
   \<and> has_content_length (hc post_world_parsed)
   \<and> body_offset (hc post_world_parsed) = 39
   \<and> control_data_len (hc post_world_parsed) = 39"
  using body_offset_after_control_data
          [of post_world_read post_world_parsed "example_env http_msg_zero" 0,
           OF disjI1 [OF post_world_checks] post_world_has_content_length]
        post_world_checks post_world_has_content_length post_world_headers
  by simp

section \<open>Parse failures on the server receive path (C7)\<close>

text \<open>
  What the code at the label \<open>error\<close> of the server handler does, once a check has
  jumped there with the status code \<open>ec\<close>: it drops all received bytes, enqueues the
  minimal error response for \<open>ec\<close> on the transport tx queue as far as the free space
  of that queue (and the 64 KiB burst) allows, tells the app that the connection is
  closing, disconnects the transport and returns \<open>HTTP_SM_ERROR\<close>.
\<close>

lemma wait_client_method_error_effect:
  assumes rd: "http_read_message w0 = (0, w)"
      and ck: "http_state_wait_client_method_checks w = Inl (ec, w1)"
  shows "\<exists>w'. http_state_wait_client_method env w0 = (HTTP_SM_ERROR, w')
           \<and> fifo_data (tx_fifo (ts w')) =
               fifo_data (tx_fifo (ts w0))
               @ take (min (svm_fifo_max_enqueue (tx_fifo (ts w0))) (64 * 1024))
                   (http_error_template (http_status_code_str env ec) (timebase_now env))
           \<and> events w' =
               events w0
               @ (if svm_fifo_max_enqueue (tx_fifo (ts w0)) \<noteq> 0 \<and> \<not> has_event (tx_fifo (ts w0))
                  then [SESSION_IO_EVT_TX] else [])
               @ [SESSION_TRANSPORT_CLOSING_NOTIFY, VNET_DISCONNECT_SESSION]
           \<and> state (hc w') = HTTP_CONN_STATE_CLOSED
           \<and> fifo_data (rx_fifo (ts w')) = []
           \<and> rx_buf (hc w') = []"
proof -
  note r = http_read_message_ok [OF rd]
  from wait_client_method_checks_frame(1) [OF ck]
  have sw: "ts w1 = ts w0" "events w1 = events w0" and ec: "ec \<noteq> HTTP_STATUS_OUT_OF_RANGE"
    by (simp_all add: same_world_def r)
  have ne: "http_error_template (http_status_code_str env ec) (timebase_now env) \<noteq> []"
    by (simp add: http_error_template_def)
  have eq: "http_state_wait_client_method env w0 =
              (HTTP_SM_ERROR, http_state_wait_client_method_error env ec w1)"
    by (simp add: http_state_wait_client_method_def rd ck)
  show ?thesis
    unfolding eq using sw ec ne
    by (auto simp: http_state_wait_client_method_error_def http_disconnect_transport_def
          notify_def http_send_error_def http_send_data_def Let_def svm_fifo_enqueue_def
          svm_fifo_set_event_def http_read_message_drop_all_def svm_fifo_dequeue_drop_all_def
          svm_fifo_is_empty_def svm_fifo_unset_event_def svm_fifo_max_enqueue_def
          SVM_FIFO_EFULL_def min_def
          split: prod.splits if_splits)
qed

text \<open>
  A parse failure of a received request: the first of \<open>http_parse_request_line\<close>,
  \<open>http_identify_headers\<close> and \<open>http_identify_message_body\<close>, called in this order
  as the handler calls them, that fails, with the status code it fails with.
\<close>

definition server_parse_failure :: "http_conn_t \<Rightarrow> http_status_code_t option" where
  "server_parse_failure c =
     (case http_parse_request_line c of
        (Some ec, h) \<Rightarrow> Some ec
      | (None, h1) \<Rightarrow>
          (case http_identify_headers h1 of
             (Some ec, h) \<Rightarrow> Some ec
           | (None, h2) \<Rightarrow> fst (http_identify_message_body h2)))"

lemma server_parse_failure_checks:
  assumes "8 \<le> length (rx_buf (hc w))"
      and "server_parse_failure (hc w) = Some ec"
  shows "\<exists>w1. http_state_wait_client_method_checks w = Inl (ec, w1)"
  using assms
  by (auto simp: server_parse_failure_def http_state_wait_client_method_checks_def Let_def
           split: prod.splits option.splits)

text \<open>
  C7 as the source has it. When the bytes received, eight at least, fail to parse (a
  bad request line, bad headers or a bad Content-Length) with status code \<open>ec\<close>, the
  handler enqueues the minimal error response for \<open>ec\<close> on the transport tx queue as
  far as the free space of that queue allows: all of it when it fits, nothing when the
  queue is full. It tells the app that the connection is closing, disconnects the
  transport and returns \<open>HTTP_SM_ERROR\<close>, having dropped all received bytes.
\<close>

theorem server_parse_failure_response:
  assumes rd: "http_read_message w0 = (0, w)"
      and len: "8 \<le> length (rx_buf (hc w))"
      and pf: "server_parse_failure (hc w) = Some ec"
  shows "\<exists>w'. http_state_wait_client_method env w0 = (HTTP_SM_ERROR, w')
           \<and> fifo_data (tx_fifo (ts w')) =
               fifo_data (tx_fifo (ts w0))
               @ take (min (svm_fifo_max_enqueue (tx_fifo (ts w0))) (64 * 1024))
                   (http_error_template (http_status_code_str env ec) (timebase_now env))
           \<and> events w' =
               events w0
               @ (if svm_fifo_max_enqueue (tx_fifo (ts w0)) \<noteq> 0 \<and> \<not> has_event (tx_fifo (ts w0))
                  then [SESSION_IO_EVT_TX] else [])
               @ [SESSION_TRANSPORT_CLOSING_NOTIFY, VNET_DISCONNECT_SESSION]
           \<and> state (hc w') = HTTP_CONN_STATE_CLOSED
           \<and> fifo_data (rx_fifo (ts w')) = []
           \<and> rx_buf (hc w') = []"
proof -
  from server_parse_failure_checks [OF len pf]
  obtain w1 where ck: "http_state_wait_client_method_checks w = Inl (ec, w1)" ..
  show ?thesis
    by (rule wait_client_method_error_effect [OF rd ck])
qed

text \<open>
  The theorem at the request line \<open>get / HTTP/1.1\<close>, which fails with BadRequest,
  with room in the transport tx queue: the whole 400 response is enqueued. A request
  with the header \<open>Content-Length: x\<close> is a parse failure too.
\<close>

definition bad_request :: string where
  "bad_request = ''get / HTTP/1.1'' @ CRLF @ CRLF"

definition bad_world :: http_world where
  "bad_world = world_of (server_conn []) bad_request 4096 4096 []"

definition bad_world_read :: http_world where
  "bad_world_read = snd (http_read_message bad_world)"

lemmas bad_eval =
  bad_world_read_def bad_world_def bad_request_def server_parse_failure_def

lemma bad_world_read: "http_read_message bad_world = (0, bad_world_read)"
  by (simp add: bad_eval world_eval conn_eval)

lemma bad_world_len: "8 \<le> length (rx_buf (hc bad_world_read))"
  by (simp add: bad_eval world_eval conn_eval)

lemma bad_world_fails:
  "server_parse_failure (hc bad_world_read) = Some HTTP_STATUS_BAD_REQUEST"
  by (simp add: bad_eval parser_eval world_eval conn_eval)

lemma bad_content_length_fails:
  "server_parse_failure
     (server_conn (''GET / HTTP/1.1'' @ CRLF @ ''Content-Length: x'' @ CRLF @ CRLF)) =
     Some HTTP_STATUS_BAD_REQUEST"
  by (simp add: server_parse_failure_def parser_eval conn_eval)

theorem server_parse_failure_response_witness:
  "http_read_message bad_world = (0, bad_world_read)
   \<and> 8 \<le> length (rx_buf (hc bad_world_read))
   \<and> server_parse_failure (hc bad_world_read) = Some HTTP_STATUS_BAD_REQUEST
   \<and> (\<exists>w'. http_state_wait_client_method (example_env http_msg_zero) bad_world = (HTTP_SM_ERROR, w')
         \<and> fifo_data (tx_fifo (ts w')) =
             ''HTTP/1.1 400 Bad Request'' @ CRLF @
             ''Date: Thu, 01 Jan 1970 00:00:00 GMT'' @ CRLF @
             ''Connection: close'' @ CRLF @
             ''Content-Length: 0'' @ CRLF @ CRLF
         \<and> events w' =
             [SESSION_IO_EVT_TX, SESSION_TRANSPORT_CLOSING_NOTIFY, VNET_DISCONNECT_SESSION]
         \<and> state (hc w') = HTTP_CONN_STATE_CLOSED)"
proof -
  from server_parse_failure_response
         [OF bad_world_read bad_world_len bad_world_fails, of "example_env http_msg_zero"]
  obtain w' where
    "http_state_wait_client_method (example_env http_msg_zero) bad_world = (HTTP_SM_ERROR, w')"
    and "fifo_data (tx_fifo (ts w')) =
           fifo_data (tx_fifo (ts bad_world))
           @ take (min (svm_fifo_max_enqueue (tx_fifo (ts bad_world))) (64 * 1024))
               (http_error_template
                  (http_status_code_str (example_env http_msg_zero) HTTP_STATUS_BAD_REQUEST)
                  (timebase_now (example_env http_msg_zero)))"
    and "events w' =
           events bad_world
           @ (if svm_fifo_max_enqueue (tx_fifo (ts bad_world)) \<noteq> 0
                 \<and> \<not> has_event (tx_fifo (ts bad_world))
              then [SESSION_IO_EVT_TX] else [])
           @ [SESSION_TRANSPORT_CLOSING_NOTIFY, VNET_DISCONNECT_SESSION]"
    and "state (hc w') = HTTP_CONN_STATE_CLOSED"
    by (elim exE conjE)
  then have "\<exists>w'. http_state_wait_client_method (example_env http_msg_zero) bad_world = (HTTP_SM_ERROR, w')
         \<and> fifo_data (tx_fifo (ts w')) =
             ''HTTP/1.1 400 Bad Request'' @ CRLF @
             ''Date: Thu, 01 Jan 1970 00:00:00 GMT'' @ CRLF @
             ''Connection: close'' @ CRLF @
             ''Content-Length: 0'' @ CRLF @ CRLF
         \<and> events w' =
             [SESSION_IO_EVT_TX, SESSION_TRANSPORT_CLOSING_NOTIFY, VNET_DISCONNECT_SESSION]
         \<and> state (hc w') = HTTP_CONN_STATE_CLOSED"
    by (simp add: bad_world_def world_eval)
  with bad_world_read bad_world_len bad_world_fails show ?thesis
    by (intro conjI)
qed

text \<open>
  C7 as the claim states it: every parse failure sends the error response. When the
  transport tx queue is full, here with 4096 bytes queued in a queue of 4096,
  \<open>svm_fifo_enqueue\<close> fails, \<open>http_send_data\<close> returns 0 and \<open>http_send_error\<close>
  goes on: the same bad request line ends in \<open>HTTP_SM_ERROR\<close> with no byte of the
  response enqueued for the peer.
\<close>

definition bad_world_tx_full :: http_world where
  "bad_world_tx_full =
     bad_world\<lparr>ts := \<lparr>rx_fifo = fifo_of bad_request 4096,
                      tx_fifo = fifo_of (replicate 4096 (CHR ''x'')) 4096\<rparr>\<rparr>"

theorem server_parse_failure_no_response:
  "server_parse_failure (hc (snd (http_read_message bad_world_tx_full))) =
     Some HTTP_STATUS_BAD_REQUEST
   \<and> fst (http_state_wait_client_method (example_env http_msg_zero) bad_world_tx_full) = HTTP_SM_ERROR
   \<and> fifo_data (tx_fifo (ts (snd (http_state_wait_client_method (example_env http_msg_zero)
                                    bad_world_tx_full)))) = replicate 4096 (CHR ''x'')
   \<and> events (snd (http_state_wait_client_method (example_env http_msg_zero) bad_world_tx_full)) =
       [SESSION_TRANSPORT_CLOSING_NOTIFY, VNET_DISCONNECT_SESSION]"
  by (simp add: bad_world_tx_full_def bad_eval http_state_wait_client_method_def
        http_state_wait_client_method_checks_def http_state_wait_client_method_error_def
        parser_eval world_eval conn_eval)

text \<open>
  The test for room in the app rx queue is not among the failures above. The source
  compares the free space with \<open>control_data_len\<close> alone, while the handoff enqueues
  \<open>sizeof (msg)\<close> bytes more, all or nothing. A POST request of 43 bytes, 39 of them
  control data, that meets an app rx queue with 90 free bytes passes that test; the
  enqueue of 56 + 43 bytes fails, nothing reaches the app, no error response is sent,
  and the connection waits for the app's reply.
\<close>

definition tight_world :: http_world where
  "tight_world = world_of (server_conn []) post_request 4096 90 []"

lemma room_test_without_msg_header:
  "fst (http_state_wait_client_method (example_env http_msg_zero) tight_world) = HTTP_SM_STOP
   \<and> fifo_data (rx_fifo (as (snd (http_state_wait_client_method (example_env http_msg_zero)
                                    tight_world)))) = []
   \<and> fifo_data (tx_fifo (ts (snd (http_state_wait_client_method (example_env http_msg_zero)
                                    tight_world)))) = []
   \<and> http_state (hc (snd (http_state_wait_client_method (example_env http_msg_zero)
                            tight_world))) = HTTP_STATE_WAIT_APP_REPLY
   \<and> events (snd (http_state_wait_client_method (example_env http_msg_zero) tight_world)) =
       [APP_WORKER_RX_NOTIFY]"
  by (simp add: tight_world_def post_request_def http_state_wait_client_method_def
        http_state_wait_client_method_checks_def http_state_wait_client_method_handoff_def
        parser_eval world_eval conn_eval)

section \<open>Effects of the helpers\<close>

lemma u32_sub_le:
  assumes le: "b \<le> a" and lt: "a < 2 ^ 32"
  shows "u32_sub a b = a - b"
proof -
  have bm: "b mod 2 ^ 32 = b"
    using le lt by (intro mod_less) (rule le_less_trans)
  have eq: "a + 2 ^ 32 - b = (a - b) + 2 ^ 32"
    using le by (rule Nat.add_diff_assoc2 [symmetric])
  have sm: "a - b < 2 ^ 32"
    using lt by (rule less_imp_diff_less)
  have "(a + 2 ^ 32 - b mod 2 ^ 32) mod 2 ^ 32 = ((a - b) + 2 ^ 32) mod 2 ^ 32"
    by (simp only: bm eq)
  also have "\<dots> = (a - b) mod 2 ^ 32"
    by (rule mod_add_self2)
  also have "\<dots> = a - b"
    using sm by (rule mod_less)
  finally show ?thesis
    by (simp only: u32_sub_def)
qed

lemma unat_of_nat_64: "n < 2 ^ 64 \<Longrightarrow> unat (of_nat n :: 64 word) = n"
  by (simp add: unat_of_nat)

lemma notify_proj [simp]:
  "hc (notify ev w) = hc w" "ts (notify ev w) = ts w" "as (notify ev w) = as w"
  "app_wrk_valid (notify ev w) = app_wrk_valid w" "sp (notify ev w) = sp w"
  "events (notify ev w) = events w @ [ev]"
  by (simp_all add: notify_def)

lemma http_state_change_proj [simp]:
  "hc (http_state_change st w) = (hc w)\<lparr>http_state := st\<rparr>"
  "ts (http_state_change st w) = ts w" "as (http_state_change st w) = as w"
  "app_wrk_valid (http_state_change st w) = app_wrk_valid w"
  "sp (http_state_change st w) = sp w" "events (http_state_change st w) = events w"
  by (simp_all add: http_state_change_def)

lemma http_disconnect_transport_proj [simp]:
  "hc (http_disconnect_transport w) = (hc w)\<lparr>state := HTTP_CONN_STATE_CLOSED\<rparr>"
  "ts (http_disconnect_transport w) = ts w" "as (http_disconnect_transport w) = as w"
  "app_wrk_valid (http_disconnect_transport w) = app_wrk_valid w"
  "sp (http_disconnect_transport w) = sp w"
  "events (http_disconnect_transport w) = events w @ [VNET_DISCONNECT_SESSION]"
  by (simp_all add: http_disconnect_transport_def)

lemma http_read_message_drop_all_proj [simp]:
  "hc (http_read_message_drop_all w) = (hc w)\<lparr>rx_buf := []\<rparr>"
  "tx_fifo (ts (http_read_message_drop_all w)) = tx_fifo (ts w)"
  "fifo_data (rx_fifo (ts (http_read_message_drop_all w))) = []"
  "as (http_read_message_drop_all w) = as w"
  "app_wrk_valid (http_read_message_drop_all w) = app_wrk_valid w"
  "sp (http_read_message_drop_all w) = sp w"
  "events (http_read_message_drop_all w) = events w"
  by (simp_all add: http_read_message_drop_all_def Let_def svm_fifo_dequeue_drop_all_def
        svm_fifo_is_empty_def svm_fifo_unset_event_def)

lemma http_read_message_drop_proj [simp]:
  "hc (http_read_message_drop w len) = (hc w)\<lparr>rx_buf := []\<rparr>"
  "tx_fifo (ts (http_read_message_drop w len)) = tx_fifo (ts w)"
  "fifo_data (rx_fifo (ts (http_read_message_drop w len))) = drop len (fifo_data (rx_fifo (ts w)))"
  "as (http_read_message_drop w len) = as w"
  "app_wrk_valid (http_read_message_drop w len) = app_wrk_valid w"
  "sp (http_read_message_drop w len) = sp w"
  "events (http_read_message_drop w len) = events w"
  by (simp_all add: http_read_message_drop_def Let_def svm_fifo_dequeue_drop_def
        svm_fifo_is_empty_def svm_fifo_unset_event_def)

lemmas handler_eval =
  http_state_wait_client_method_def http_state_wait_client_method_checks_def
  http_state_wait_client_method_error_def http_state_wait_client_method_handoff_def
  http_state_wait_server_reply_def http_state_wait_server_reply_checks_def
  http_state_wait_server_reply_error_def http_state_wait_server_reply_handoff_def

section \<open>The handoff of the server handler (C3)\<close>

text \<open>
  The number of bytes of \<open>rx_buf\<close> that the server handler hands to the app:
  \<open>len = clib_min (max_enq, max_deq)\<close> with
  \<open>max_deq = clib_min (hc->control_data_len + hc->body_len, vec_len (hc->rx_buf))\<close>,
  the sum taken in 64 bits.
\<close>

definition handoff_len :: "http_world \<Rightarrow> nat" where
  "handoff_len w =
     min (svm_fifo_max_enqueue (rx_fifo (as w)))
         (unat (min (of_nat (control_data_len (hc w)) + body_len (hc w))
                    (of_nat (length (rx_buf (hc w)))) :: 64 word))"

text \<open>
  What the handoff does, for every input: \<open>to_recv\<close> is \<open>body_len - body_sent\<close>
  with \<open>body_sent = len - control_data_len\<close> in \<open>u32\<close>; when it is 0 everything
  received is dropped and the state is WAIT_APP_REPLY, otherwise \<open>len\<close> bytes are
  dropped and the state is CLIENT_IO_MORE_DATA.
\<close>

lemma wait_client_method_handoff_effect:
  fixes env w
  defines "w' \<equiv> http_state_wait_client_method_handoff env w"
  shows "to_recv (hc w') =
           body_len (hc w) - of_nat (u32_sub (handoff_len w) (control_data_len (hc w)))"
    and "rx_buf (hc w') = []"
    and "to_recv (hc w') = 0 \<Longrightarrow>
           fifo_data (rx_fifo (ts w')) = [] \<and> http_state (hc w') = HTTP_STATE_WAIT_APP_REPLY"
    and "to_recv (hc w') \<noteq> 0 \<Longrightarrow>
           fifo_data (rx_fifo (ts w')) = drop (handoff_len w) (fifo_data (rx_fifo (ts w)))
           \<and> http_state (hc w') = HTTP_STATE_CLIENT_IO_MORE_DATA"
proof -
  let ?tr = "body_len (hc w) - of_nat (u32_sub (handoff_len w) (control_data_len (hc w)))"
  note defs = w'_def http_state_wait_client_method_handoff_def handoff_len_def Let_def
  show tr: "to_recv (hc w') = ?tr"
    by (simp add: defs)
  show "rx_buf (hc w') = []"
    by (simp add: defs)
  show "to_recv (hc w') = 0 \<Longrightarrow>
           fifo_data (rx_fifo (ts w')) = [] \<and> http_state (hc w') = HTTP_STATE_WAIT_APP_REPLY"
    unfolding tr by (simp add: defs)
  show "to_recv (hc w') \<noteq> 0 \<Longrightarrow>
           fifo_data (rx_fifo (ts w')) = drop (handoff_len w) (fifo_data (rx_fifo (ts w)))
           \<and> http_state (hc w') = HTTP_STATE_CLIENT_IO_MORE_DATA"
    unfolding tr by (simp add: defs)
qed

text \<open>
  When \<open>control_data_len + body_len\<close> does not wrap, \<open>len\<close> covers the control
  data and \<open>to_recv\<close> is \<open>body_len\<close> less \<open>len - control_data_len\<close>, the body
  bytes that the handler passes to the enqueue (whether or not the queue takes them).
\<close>

lemma handoff_len_no_wrap:
  assumes nw: "control_data_len (hc w) + unat (body_len (hc w)) < 2 ^ 64"
      and v: "length (rx_buf (hc w)) < 2 ^ 32"
      and cv: "control_data_len (hc w) \<le> length (rx_buf (hc w))"
      and ce: "control_data_len (hc w) \<le> svm_fifo_max_enqueue (rx_fifo (as w))"
  shows "handoff_len w =
           min (svm_fifo_max_enqueue (rx_fifo (as w)))
               (min (control_data_len (hc w) + unat (body_len (hc w))) (length (rx_buf (hc w))))"
    and "control_data_len (hc w) \<le> handoff_len w"
    and "unat (body_len (hc w) - of_nat (u32_sub (handoff_len w) (control_data_len (hc w)))) =
           unat (body_len (hc w)) - (handoff_len w - control_data_len (hc w))"
proof -
  let ?C = "control_data_len (hc w)" and ?B = "body_len (hc w)" and ?V = "length (rx_buf (hc w))"
  have c64: "?C < 2 ^ 64" using nw by simp
  have uc: "unat (of_nat ?C :: 64 word) = ?C"
    using c64 by (simp add: unat_of_nat_64)
  have uv: "unat (of_nat ?V :: 64 word) = ?V"
    using v by (simp add: unat_of_nat_64)
  have us: "unat (of_nat ?C + ?B) = ?C + unat ?B"
    using nw uc by (simp add: unat_word_ariths)
  have um: "unat (min (of_nat ?C + ?B) (of_nat ?V :: 64 word)) = min (?C + unat ?B) ?V"
    using us uv by (simp add: min_def word_le_nat_alt)
  show l: "handoff_len w =
           min (svm_fifo_max_enqueue (rx_fifo (as w))) (min (?C + unat ?B) ?V)"
    by (simp add: handoff_len_def um)
  show ge: "?C \<le> handoff_len w"
    using l cv ce by simp
  have lt: "handoff_len w < 2 ^ 32"
    using l v by simp
  have bs: "u32_sub (handoff_len w) ?C = handoff_len w - ?C"
    using ge lt by (rule u32_sub_le)
  have le: "handoff_len w - ?C \<le> unat ?B"
    using l by simp
  have "unat (of_nat (handoff_len w - ?C) :: 64 word) = handoff_len w - ?C"
    using lt by (intro unat_of_nat_64) simp
  then show "unat (?B - of_nat (u32_sub (handoff_len w) ?C)) =
           unat ?B - (handoff_len w - ?C)"
    using le by (simp add: bs unat_sub word_le_nat_alt)
qed

text \<open>
  C3. The claim: when \<open>to_recv\<close> computes to 0 everything received is dropped and
  the state is WAIT_APP_REPLY; otherwise only the handed-off bytes are dropped, the state
  is CLIENT_IO_MORE_DATA and \<open>to_recv\<close> is \<open>body_len\<close> minus the body bytes handed
  off. The source adds \<open>hc->control_data_len + hc->body_len\<close> in 64 bits without a
  check. For \<open>Content-Length: 18446744073709551615\<close> (the largest value within
  range) and 56 bytes of control data the sum wraps to 55: the handler hands off 55
  bytes, one short of the control data and none of the body, drops them, and sets
  \<open>to_recv = body_len - (2^32 - 1)\<close>, not \<open>body_len\<close>.
\<close>

definition huge_request :: string where
  "huge_request =
     ''GET / HTTP/1.1'' @ CRLF @ ''Content-Length: 18446744073709551615'' @ CRLF @ CRLF"

definition huge_world :: http_world where
  "huge_world = world_of (server_conn []) huge_request 4096 4096 []"

definition huge_world_after :: http_world where
  "huge_world_after = snd (http_state_wait_client_method (example_env http_msg_zero) huge_world)"

lemmas huge_eval = huge_world_after_def huge_world_def huge_request_def

lemma huge_world_parsed:
  "body_len (hc huge_world_after) = 18446744073709551615
   \<and> control_data_len (hc huge_world_after) = 56"
  by (simp add: huge_eval handler_eval parser_eval world_eval conn_eval)

lemma huge_world_to_recv: "to_recv (hc huge_world_after) = 18446744069414584320"
  by (simp add: huge_eval handler_eval parser_eval world_eval conn_eval)

lemma huge_world_dropped:
  "fifo_data (rx_fifo (ts huge_world_after)) = [LF]
   \<and> http_state (hc huge_world_after) = HTTP_STATE_CLIENT_IO_MORE_DATA"
  by (simp add: huge_eval handler_eval parser_eval world_eval conn_eval)

lemma huge_world_handed_off:
  "fifo_data (rx_fifo (as huge_world_after)) = replicate 56 (CHR ''m'') @ take 55 huge_request"
  by (simp add: huge_eval handler_eval parser_eval world_eval conn_eval)

theorem handoff_sum_wraps:
  "body_len (hc huge_world_after) = 18446744073709551615
   \<and> control_data_len (hc huge_world_after) = 56
   \<and> fifo_data (rx_fifo (as huge_world_after)) = replicate 56 (CHR ''m'') @ take 55 huge_request
   \<and> fifo_data (rx_fifo (ts huge_world_after)) = [LF]
   \<and> http_state (hc huge_world_after) = HTTP_STATE_CLIENT_IO_MORE_DATA
   \<and> to_recv (hc huge_world_after) = 18446744069414584320
   \<and> to_recv (hc huge_world_after) \<noteq> body_len (hc huge_world_after)"
  using huge_world_parsed huge_world_to_recv huge_world_dropped huge_world_handed_off
  by simp

section \<open>The handoff of the client handler (C10)\<close>

lemma wait_server_reply_checks_frame:
  assumes "http_state_wait_server_reply_checks env w = Inr (w1, max_enq)"
  shows "same_world w1 w"
    and "max_enq = u32_sub (svm_fifo_max_enqueue (rx_fifo (as w))) (sizeof_msg env)"
    and "control_data_len (hc w1) \<le> max_enq"
proof -
  obtain r1 h1 where p1: "http_parse_status_line (hc w) = (r1, h1)" by force
  obtain r2 h2 where p2: "http_identify_headers h1 = (r2, h2)" by force
  obtain r3 h3 where p3: "http_identify_message_body h2 = (r3, h3)" by force
  have f1: "same_conn h1 (hc w)"
    using http_parse_status_line_conn [of "hc w"] p1 by simp
  have f2: "same_conn h2 h1"
    using http_identify_headers_conn [of h1] p2 by simp_all
  have f3: "same_conn h3 h2"
    using http_identify_message_body_conn [of h2] p3 by simp_all
  have s3: "same_conn h3 (hc w)"
    using same_conn_trans f1 f2 f3 by blast
  show "same_world w1 w"
    and "max_enq = u32_sub (svm_fifo_max_enqueue (rx_fifo (as w))) (sizeof_msg env)"
    and "control_data_len (hc w1) \<le> max_enq"
    using assms p1 p2 p3 s3
    by (auto simp: http_state_wait_server_reply_checks_def Let_def same_world_def
             split: option.splits if_splits)
qed

lemma wait_server_reply_handoff_effect:
  fixes env w max_enq
  defines "w' \<equiv> http_state_wait_server_reply_handoff env w max_enq"
      and "len \<equiv> min max_enq (length (rx_buf (hc w)))"
  shows "fifo_data (rx_fifo (ts w')) = drop len (fifo_data (rx_fifo (ts w)))"
    and "rx_buf (hc w') = []"
    and "to_recv (hc w') = body_len (hc w) - of_nat (u32_sub len (control_data_len (hc w)))"
    and "http_state (hc w') =
           (if to_recv (hc w') = 0 then HTTP_STATE_WAIT_APP_METHOD
            else HTTP_STATE_CLIENT_IO_MORE_DATA)"
    and "\<exists>msg. msg_data_len msg = len \<and>
           rx_fifo (as w') =
             snd (svm_fifo_enqueue_segments (rx_fifo (as w))
                    [msg_bytes env msg, take len (rx_buf (hc w))] False)"
proof -
  note defs = w'_def len_def http_state_wait_server_reply_handoff_def Let_def
  show "fifo_data (rx_fifo (ts w')) = drop len (fifo_data (rx_fifo (ts w)))"
    by (simp add: defs)
  show "rx_buf (hc w') = []"
    by (simp add: defs)
  show tr: "to_recv (hc w') = body_len (hc w) - of_nat (u32_sub len (control_data_len (hc w)))"
    by (simp add: defs)
  show "http_state (hc w') =
           (if to_recv (hc w') = 0 then HTTP_STATE_WAIT_APP_METHOD
            else HTTP_STATE_CLIENT_IO_MORE_DATA)"
    unfolding tr by (simp add: defs)
  show "\<exists>msg. msg_data_len msg = len \<and>
           rx_fifo (as w') =
             snd (svm_fifo_enqueue_segments (rx_fifo (as w))
                    [msg_bytes env msg, take len (rx_buf (hc w))] False)"
    by (rule exI [where x = "http_msg_zero
                  \<lparr>msg_type := HTTP_MSG_REPLY,
                   msg_code := sc_by_u16 env (status_code (hc w)),
                   msg_headers_offset := headers_offset (hc w),
                   msg_headers_len := headers_len (hc w),
                   msg_body_offset := body_offset (hc w),
                   msg_body_len := body_len (hc w),
                   msg_data_type := HTTP_MSG_DATA_INLINE,
                   msg_data_len := len\<rparr>"]) (simp add: defs)
qed

text \<open>
  C10 as the source has it. After the checks of the client handler succeed, the
  handler hands the app a message header and the first \<open>len\<close> bytes of \<open>rx_buf\<close>,
  where \<open>len\<close> is the minimum of the free space of the app rx queue less
  \<open>sizeof (msg)\<close> and the length of \<open>rx_buf\<close>; it drops exactly \<open>len\<close> bytes from
  the transport rx queue, whatever \<open>to_recv\<close> is, so that bytes beyond them stay
  queued; the state is WAIT_APP_METHOD when \<open>to_recv\<close> is 0 and CLIENT_IO_MORE_DATA
  otherwise.
\<close>

theorem client_reply_handoff_drop:
  assumes rd: "http_read_message w0 = (0, w)"
      and ck: "http_state_wait_server_reply_checks env w = Inr (w1, max_enq)"
  shows "\<exists>w' len.
           http_state_wait_server_reply env w0 = (HTTP_SM_STOP, w')
           \<and> len = min (u32_sub (svm_fifo_max_enqueue (rx_fifo (as w0))) (sizeof_msg env))
                        (length (rx_buf (hc w)))
           \<and> fifo_data (rx_fifo (ts w')) = drop len (fifo_data (rx_fifo (ts w0)))
           \<and> rx_buf (hc w') = []
           \<and> http_state (hc w') =
                (if to_recv (hc w') = 0 then HTTP_STATE_WAIT_APP_METHOD
                 else HTTP_STATE_CLIENT_IO_MORE_DATA)
           \<and> (\<exists>msg. msg_data_len msg = len
                 \<and> rx_fifo (as w') =
                     snd (svm_fifo_enqueue_segments (rx_fifo (as w0))
                            [msg_bytes env msg, take len (rx_buf (hc w))] False))"
proof -
  note r = http_read_message_ok [OF rd]
  note f = wait_server_reply_checks_frame [OF ck]
  from f(1) have sw: "ts w1 = ts w0" "as w1 = as w0" "rx_buf (hc w1) = rx_buf (hc w)"
    by (simp_all add: same_world_def same_conn_def r)
  have me: "max_enq = u32_sub (svm_fifo_max_enqueue (rx_fifo (as w0))) (sizeof_msg env)"
    using f(2) by (simp add: r)
  have eq: "http_state_wait_server_reply env w0 =
              (HTTP_SM_STOP, http_state_wait_server_reply_handoff env w1 max_enq)"
    by (simp add: http_state_wait_server_reply_def rd ck)
  note e = wait_server_reply_handoff_effect [where env = env and w = w1 and max_enq = max_enq]
  show ?thesis
    unfolding eq using e(1,2,4,5) by (simp add: sw me)
qed

text \<open>
  A reply of 49 bytes, 39 of them control data, meets an app rx queue with 100 free
  bytes: with a 56-byte message header, 44 bytes of \<open>rx_buf\<close> are handed off and
  dropped, and the last five stay in the transport rx queue.
\<close>

definition reply_bytes :: string where
  "reply_bytes = ''HTTP/1.1 200 OK'' @ CRLF @ ''Content-Length: 10'' @ CRLF @ CRLF @ ''0123456789''"

definition reply_world :: http_world where
  "reply_world = world_of client_conn reply_bytes 4096 100 []"

definition reply_world_read :: http_world where
  "reply_world_read = snd (http_read_message reply_world)"

definition reply_world_parsed :: http_world where
  "reply_world_parsed =
     fst (projr (http_state_wait_server_reply_checks (example_env http_msg_zero) reply_world_read))"

definition reply_world_after :: http_world where
  "reply_world_after = snd (http_state_wait_server_reply (example_env http_msg_zero) reply_world)"

lemmas reply_eval =
  reply_world_after_def reply_world_parsed_def reply_world_read_def reply_world_def reply_bytes_def

lemma reply_world_read: "http_read_message reply_world = (0, reply_world_read)"
  by (simp add: reply_eval world_eval conn_eval)

lemma reply_world_checks:
  "http_state_wait_server_reply_checks (example_env http_msg_zero) reply_world_read =
     Inr (reply_world_parsed, 44)"
  by (simp add: reply_eval handler_eval parser_eval world_eval conn_eval)

lemma reply_world_free_space:
  "min (svm_fifo_max_enqueue (rx_fifo (as reply_world))) (length (rx_buf (hc reply_world_read))) = 49"
  by (simp add: reply_eval world_eval conn_eval)

lemma reply_world_dropped: "fifo_data (rx_fifo (ts reply_world_after)) = ''56789''"
  by (simp add: reply_eval handler_eval parser_eval world_eval conn_eval)

lemma reply_world_queued: "fifo_data (rx_fifo (ts reply_world)) = reply_bytes"
  by (simp add: reply_eval world_eval)

theorem client_reply_handoff_drop_witness:
  "http_read_message reply_world = (0, reply_world_read)
   \<and> http_state_wait_server_reply_checks (example_env http_msg_zero) reply_world_read =
       Inr (reply_world_parsed, 44)
   \<and> (\<exists>w'. http_state_wait_server_reply (example_env http_msg_zero) reply_world = (HTTP_SM_STOP, w')
         \<and> fifo_data (rx_fifo (ts w')) = drop 44 reply_bytes
         \<and> rx_buf (hc w') = [])"
proof -
  from client_reply_handoff_drop [OF reply_world_read reply_world_checks]
  obtain w' len where
    "http_state_wait_server_reply (example_env http_msg_zero) reply_world = (HTTP_SM_STOP, w')"
    and "len = min (u32_sub (svm_fifo_max_enqueue (rx_fifo (as reply_world)))
                      (sizeof_msg (example_env http_msg_zero)))
                   (length (rx_buf (hc reply_world_read)))"
    and "fifo_data (rx_fifo (ts w')) = drop len (fifo_data (rx_fifo (ts reply_world)))"
    and "rx_buf (hc w') = []"
    by (elim exE conjE)
  then have "\<exists>w'. http_state_wait_server_reply (example_env http_msg_zero) reply_world = (HTTP_SM_STOP, w')
         \<and> fifo_data (rx_fifo (ts w')) = drop 44 reply_bytes
         \<and> rx_buf (hc w') = []"
    by (simp add: reply_eval world_eval conn_eval u32_sub_def)
  with reply_world_read reply_world_checks show ?thesis
    by (intro conjI)
qed

text \<open>
  C10 as the claim states it: the bytes dropped are the minimum of the free space of
  the app rx queue and the length of \<open>rx_buf\<close>. In the world above that minimum is 49,
  the whole of \<open>rx_buf\<close>; the handler drops 44 bytes and leaves five queued.
\<close>

theorem client_reply_drop_not_min_free_space:
  "min (svm_fifo_max_enqueue (rx_fifo (as reply_world))) (length (rx_buf (hc reply_world_read))) = 49
   \<and> length (fifo_data (rx_fifo (ts reply_world))) = 49
   \<and> length (fifo_data (rx_fifo (ts reply_world_after))) = 5
   \<and> fifo_data (rx_fifo (ts reply_world_after)) \<noteq>
       drop (min (svm_fifo_max_enqueue (rx_fifo (as reply_world)))
                 (length (rx_buf (hc reply_world_read))))
            (fifo_data (rx_fifo (ts reply_world)))"
  using reply_world_free_space reply_world_dropped reply_world_queued
  by (simp add: reply_bytes_def)

section \<open>Streaming the body to the app (C4)\<close>

text \<open>
  C4 as the source has it. One invocation of the CLIENT_IO_MORE_DATA handler first
  looks at the transport rx queue: when it holds nothing the handler returns STOP and
  changes nothing, whatever the state of the app rx queue. When it holds bytes and the
  app rx queue is full, the handler registers a dequeue notification on the app rx
  queue and returns STOP. When it holds bytes and the app rx queue has room, the
  handler moves exactly \<open>n\<close> bytes, the minimum of the free space of the app rx queue
  and the bytes queued, from the transport rx queue to the app rx queue; if \<open>n\<close>
  exceeds \<open>to_recv\<close> it notifies the app that the connection is closing, disconnects
  the transport and returns ERROR; otherwise it subtracts \<open>n\<close> from \<open>to_recv\<close>,
  returns STOP, and when \<open>to_recv\<close> reaches 0 the state is WAIT_APP_REPLY for a
  server connection and WAIT_APP_METHOD for a client connection.
\<close>

theorem client_io_more_data_step:
  fixes w
  defines "max_deq \<equiv> svm_fifo_max_dequeue (rx_fifo (ts w))"
      and "max_enq \<equiv> svm_fifo_max_enqueue (rx_fifo (as w))"
      and "r \<equiv> http_state_client_io_more_data w"
  defines "n \<equiv> min max_enq max_deq"
  shows "(max_deq = 0 \<longrightarrow> r = (HTTP_SM_STOP, w))
       \<and> (max_deq \<noteq> 0 \<and> max_enq = 0 \<longrightarrow>
            r = (HTTP_SM_STOP,
                 w\<lparr>as := (as w)\<lparr>rx_fifo := (rx_fifo (as w))\<lparr>want_deq_ntf := True\<rparr>\<rparr>\<rparr>))
       \<and> (max_deq \<noteq> 0 \<and> max_enq \<noteq> 0 \<longrightarrow>
            fifo_data (rx_fifo (ts (snd r))) = drop n (fifo_data (rx_fifo (ts w)))
            \<and> fifo_data (rx_fifo (as (snd r))) =
                fifo_data (rx_fifo (as w)) @ take n (fifo_data (rx_fifo (ts w)))
            \<and> (if to_recv (hc w) < of_nat n then
                  fst r = HTTP_SM_ERROR
                  \<and> state (hc (snd r)) = HTTP_CONN_STATE_CLOSED
                  \<and> events (snd r) =
                      events w @ [SESSION_TRANSPORT_CLOSING_NOTIFY, VNET_DISCONNECT_SESSION]
                else
                  fst r = HTTP_SM_STOP
                  \<and> to_recv (hc (snd r)) = to_recv (hc w) - of_nat n
                  \<and> http_state (hc (snd r)) =
                      (if to_recv (hc w) = of_nat n then
                         (if is_server (hc w) then HTTP_STATE_WAIT_APP_REPLY
                          else HTTP_STATE_WAIT_APP_METHOD)
                       else http_state (hc w))))"
proof (intro conjI impI)
  assume "max_deq = 0"
  then show "r = (HTTP_SM_STOP, w)"
    by (simp add: r_def max_deq_def http_state_client_io_more_data_def)
next
  assume "max_deq \<noteq> 0 \<and> max_enq = 0"
  then show "r = (HTTP_SM_STOP,
                 w\<lparr>as := (as w)\<lparr>rx_fifo := (rx_fifo (as w))\<lparr>want_deq_ntf := True\<rparr>\<rparr>\<rparr>)"
    by (simp add: r_def max_deq_def max_enq_def http_state_client_io_more_data_def
          svm_fifo_add_want_deq_ntf_def)
next
  assume a: "max_deq \<noteq> 0 \<and> max_enq \<noteq> 0"
  then have ne: "fifo_data (rx_fifo (ts w)) \<noteq> []" and n0: "0 < n"
    and nd: "n \<le> length (fifo_data (rx_fifo (ts w)))"
    and ne': "n \<le> svm_fifo_max_enqueue (rx_fifo (as w))"
    by (auto simp: max_deq_def max_enq_def n_def svm_fifo_max_dequeue_def)
  have seg: "svm_fifo_segments (rx_fifo (ts w)) n = (int n, take n (fifo_data (rx_fifo (ts w))))"
    using ne nd by (simp add: svm_fifo_segments_def)
  have enq: "svm_fifo_enqueue_segments (rx_fifo (as w)) [take n (fifo_data (rx_fifo (ts w)))] False =
               (int n, (rx_fifo (as w))\<lparr>fifo_data := fifo_data (rx_fifo (as w))
                                          @ take n (fifo_data (rx_fifo (ts w)))\<rparr>)"
    using n0 nd ne' by (simp add: svm_fifo_enqueue_segments_def Let_def)
  have r: "r = (let w2 = w\<lparr>as := (as w)\<lparr>rx_fifo := (rx_fifo (as w))\<lparr>fifo_data := fifo_data (rx_fifo (as w))
                                          @ take n (fifo_data (rx_fifo (ts w)))\<rparr>\<rparr>,
                          ts := (ts w)\<lparr>rx_fifo := svm_fifo_dequeue_drop (rx_fifo (ts w)) n\<rparr>\<rparr>
               in if to_recv (hc w) < of_nat n then
                    (HTTP_SM_ERROR,
                     http_state_change HTTP_STATE_WAIT_APP_METHOD
                       (http_disconnect_transport (notify SESSION_TRANSPORT_CLOSING_NOTIFY w2)))
                  else
                    let w3 = w2\<lparr>hc := (hc w2)\<lparr>to_recv := to_recv (hc w2) - of_nat n\<rparr>\<rparr>;
                        w4 = (if to_recv (hc w3) = 0 then
                                http_state_change
                                  (if is_server (hc w3) then HTTP_STATE_WAIT_APP_REPLY
                                   else HTTP_STATE_WAIT_APP_METHOD) w3
                              else w3);
                        w5 = (if app_wrk_valid w4 then notify APP_WORKER_RX_NOTIFY w4 else w4);
                        w6 = (if svm_fifo_max_dequeue (rx_fifo (ts w5)) \<noteq> 0
                              then notify SESSION_ENQUEUE_NOTIFY w5 else w5)
                    in (HTTP_SM_STOP, w6))"
    using a unfolding r_def http_state_client_io_more_data_def max_deq_def [symmetric]
      max_enq_def [symmetric]
    by (simp add: n_def [symmetric] seg enq Let_def)
  show "fifo_data (rx_fifo (ts (snd r))) = drop n (fifo_data (rx_fifo (ts w)))"
    unfolding r by (simp add: Let_def svm_fifo_dequeue_drop_def)
  show "fifo_data (rx_fifo (as (snd r))) =
          fifo_data (rx_fifo (as w)) @ take n (fifo_data (rx_fifo (ts w)))"
    unfolding r by (simp add: Let_def)
  show "if to_recv (hc w) < of_nat n then
          fst r = HTTP_SM_ERROR
          \<and> state (hc (snd r)) = HTTP_CONN_STATE_CLOSED
          \<and> events (snd r) =
              events w @ [SESSION_TRANSPORT_CLOSING_NOTIFY, VNET_DISCONNECT_SESSION]
        else
          fst r = HTTP_SM_STOP
          \<and> to_recv (hc (snd r)) = to_recv (hc w) - of_nat n
          \<and> http_state (hc (snd r)) =
              (if to_recv (hc w) = of_nat n then
                 (if is_server (hc w) then HTTP_STATE_WAIT_APP_REPLY
                  else HTTP_STATE_WAIT_APP_METHOD)
               else http_state (hc w))"
    unfolding r by (simp add: Let_def)
qed

text \<open>
  A client connection that expects five more bytes and finds them queued: they all
  move to the app and the state is WAIT_APP_METHOD. A server connection in the same
  position ends in WAIT_APP_REPLY. With seven bytes queued and five expected the
  connection is closed. With an app rx queue of no free space the notification is
  registered.
\<close>

definition stream_world :: "bool \<Rightarrow> string \<Rightarrow> nat \<Rightarrow> http_world" where
  "stream_world srv rx app_rx_size =
     world_of (client_conn\<lparr>is_server := srv, http_state := HTTP_STATE_CLIENT_IO_MORE_DATA,
                           to_recv := 5\<rparr>) rx 4096 app_rx_size []"

theorem client_io_more_data_step_witness:
  "http_state_client_io_more_data (stream_world False ''abcde'' 0) =
     (HTTP_SM_STOP,
      (stream_world False ''abcde'' 0)
        \<lparr>as := (as (stream_world False ''abcde'' 0))
           \<lparr>rx_fifo := (rx_fifo (as (stream_world False ''abcde'' 0)))\<lparr>want_deq_ntf := True\<rparr>\<rparr>\<rparr>)
   \<and> fst (http_state_client_io_more_data (stream_world False ''abcde'' 100)) = HTTP_SM_STOP
   \<and> fifo_data (rx_fifo (ts (snd (http_state_client_io_more_data (stream_world False ''abcde'' 100))))) = []
   \<and> fifo_data (rx_fifo (as (snd (http_state_client_io_more_data (stream_world False ''abcde'' 100))))) =
       ''abcde''
   \<and> to_recv (hc (snd (http_state_client_io_more_data (stream_world False ''abcde'' 100)))) = 0
   \<and> http_state (hc (snd (http_state_client_io_more_data (stream_world False ''abcde'' 100)))) =
       HTTP_STATE_WAIT_APP_METHOD
   \<and> http_state (hc (snd (http_state_client_io_more_data (stream_world True ''abcde'' 100)))) =
       HTTP_STATE_WAIT_APP_REPLY
   \<and> fst (http_state_client_io_more_data (stream_world True ''abcdefg'' 100)) = HTTP_SM_ERROR
   \<and> state (hc (snd (http_state_client_io_more_data (stream_world True ''abcdefg'' 100)))) =
       HTTP_CONN_STATE_CLOSED
   \<and> events (snd (http_state_client_io_more_data (stream_world True ''abcdefg'' 100))) =
       [SESSION_TRANSPORT_CLOSING_NOTIFY, VNET_DISCONNECT_SESSION]"
  using client_io_more_data_step [of "stream_world False ''abcde'' 0"]
    client_io_more_data_step [of "stream_world False ''abcde'' 100"]
    client_io_more_data_step [of "stream_world True ''abcde'' 100"]
    client_io_more_data_step [of "stream_world True ''abcdefg'' 100"]
  by (simp add: stream_world_def world_eval conn_eval)

text \<open>
  C4 as the claim states it: whenever the app rx queue is full the handler registers a
  dequeue notification on it. With a full app rx queue and nothing in the transport rx
  queue the handler returns STOP at its first test and registers nothing.
\<close>

theorem client_io_more_data_full_not_registered:
  "svm_fifo_max_enqueue (rx_fifo (as (stream_world False [] 0))) = 0
   \<and> http_state_client_io_more_data (stream_world False [] 0) =
       (HTTP_SM_STOP, stream_world False [] 0)
   \<and> \<not> want_deq_ntf (rx_fifo (as (snd (http_state_client_io_more_data (stream_world False [] 0)))))"
  by (simp add: http_state_client_io_more_data_def stream_world_def world_eval conn_eval)

section \<open>Protocol violations of the app (C8)\<close>

text \<open>
  The message the app left at the head of its tx queue, and the tests the two handlers
  make on it before they build anything: the data type is beyond
  \<open>HTTP_MSG_DATA_PTR\<close>, the message type is not the one the state expects, and, for
  a request, the method is GET with a body, POST without one, or neither.
  \<open>inline_target_not_empty\<close>: a request that carries its target inline, which
  \<open>http_state_wait_app_method\<close> reads before it looks at the method, has a target.
\<close>

definition app_method_violation :: "http_msg_t \<Rightarrow> bool" where
  "app_method_violation msg =
     (msg_data_type msg = HTTP_MSG_DATA_UNKNOWN
      \<or> msg_type msg \<noteq> HTTP_MSG_REQUEST
      \<or> (msg_method_type msg = HTTP_REQ_GET \<and> msg_body_len msg \<noteq> 0)
      \<or> (msg_method_type msg = HTTP_REQ_POST \<and> msg_body_len msg = 0)
      \<or> msg_method_type msg = HTTP_REQ_UNKNOWN)"

definition inline_target_not_empty :: "http_msg_t \<Rightarrow> bool" where
  "inline_target_not_empty msg =
     (msg_data_type msg = HTTP_MSG_DATA_INLINE \<and> msg_type msg = HTTP_MSG_REQUEST
        \<longrightarrow> msg_target_path_len msg \<noteq> 0)"

definition app_reply_violation :: "http_msg_t \<Rightarrow> bool" where
  "app_reply_violation msg =
     (msg_data_type msg = HTTP_MSG_DATA_UNKNOWN \<or> msg_type msg \<noteq> HTTP_MSG_REPLY)"

definition app_tx_msg :: "http_env \<Rightarrow> http_world \<Rightarrow> http_msg_t" where
  "app_tx_msg env w = msg_of_bytes env (take (sizeof_msg env) (fifo_data (tx_fifo (as w))))"

lemma wait_app_method_error_effect:
  "fifo_data (tx_fifo (as (http_state_wait_app_method_error w))) = []"
  "events (http_state_wait_app_method_error w) =
     events w @ [SESSION_TRANSPORT_CLOSING_NOTIFY, SESSION_TRANSPORT_CLOSED_NOTIFY,
                 VNET_DISCONNECT_SESSION]"
  "state (hc (http_state_wait_app_method_error w)) = HTTP_CONN_STATE_CLOSED"
  "ts (http_state_wait_app_method_error w) = ts w"
  by (simp_all add: http_state_wait_app_method_error_def svm_fifo_dequeue_drop_all_def)

lemma wait_app_method_violation:
  assumes "app_method_violation (app_tx_msg env w)"
  shows "fst (http_state_wait_app_method env w) = HTTP_SM_ERROR"
    and "fifo_data (tx_fifo (as (snd (http_state_wait_app_method env w)))) = []"
    and "events (snd (http_state_wait_app_method env w)) =
           events w @ [SESSION_TRANSPORT_CLOSING_NOTIFY, SESSION_TRANSPORT_CLOSED_NOTIFY,
                       VNET_DISCONNECT_SESSION]"
    and "state (hc (snd (http_state_wait_app_method env w))) = HTTP_CONN_STATE_CLOSED"
    and "ts (snd (http_state_wait_app_method env w)) = ts w"
proof -
  let ?msg = "app_tx_msg env w"
  let ?w = "w\<lparr>as := (as w)\<lparr>tx_fifo := snd (svm_fifo_dequeue (tx_fifo (as w)) (sizeof_msg env))\<rparr>\<rparr>"
  let ?n = "if msg_data_type ?msg = HTTP_MSG_DATA_PTR then sizeof_uword env
            else msg_target_path_len ?msg"
  let ?w1 = "?w\<lparr>as := (as ?w)\<lparr>tx_fifo := snd (svm_fifo_dequeue (tx_fifo (as ?w)) ?n)\<rparr>\<rparr>"
  note defs = http_state_wait_app_method_def app_tx_msg_def svm_fifo_dequeue_def Let_def split_beta
  consider (a) "msg_data_type ?msg = HTTP_MSG_DATA_UNKNOWN"
    | (b) "msg_data_type ?msg \<noteq> HTTP_MSG_DATA_UNKNOWN" "msg_type ?msg \<noteq> HTTP_MSG_REQUEST"
    | (c) "msg_data_type ?msg \<noteq> HTTP_MSG_DATA_UNKNOWN" "msg_type ?msg = HTTP_MSG_REQUEST"
          "(msg_method_type ?msg = HTTP_REQ_GET \<and> msg_body_len ?msg \<noteq> 0)
           \<or> (msg_method_type ?msg = HTTP_REQ_POST \<and> msg_body_len ?msg = 0)
           \<or> msg_method_type ?msg = HTTP_REQ_UNKNOWN"
    using assms unfolding app_method_violation_def by blast
  then have "http_state_wait_app_method env w = (HTTP_SM_ERROR, http_state_wait_app_method_error ?w)
        \<or> http_state_wait_app_method env w = (HTTP_SM_ERROR, http_state_wait_app_method_error ?w1)"
  proof cases
    case a
    then show ?thesis by (simp add: defs)
  next
    case b
    then show ?thesis by (simp add: defs)
  next
    case c
    from c(3) have "http_state_wait_app_method env w =
                      (HTTP_SM_ERROR, http_state_wait_app_method_error ?w1)"
      using c(1,2) by (elim disjE) (simp_all add: defs)
    then show ?thesis ..
  qed
  moreover have "events ?w = events w" "events ?w1 = events w" "ts ?w = ts w" "ts ?w1 = ts w"
    by simp_all
  ultimately show "fst (http_state_wait_app_method env w) = HTTP_SM_ERROR"
    and "fifo_data (tx_fifo (as (snd (http_state_wait_app_method env w)))) = []"
    and "events (snd (http_state_wait_app_method env w)) =
           events w @ [SESSION_TRANSPORT_CLOSING_NOTIFY, SESSION_TRANSPORT_CLOSED_NOTIFY,
                       VNET_DISCONNECT_SESSION]"
    and "state (hc (snd (http_state_wait_app_method env w))) = HTTP_CONN_STATE_CLOSED"
    and "ts (snd (http_state_wait_app_method env w)) = ts w"
    by (auto simp: wait_app_method_error_effect)
qed

lemma http_send_error_effect:
  assumes "ec \<noteq> HTTP_STATUS_OUT_OF_RANGE"
  shows "fifo_data (tx_fifo (ts (http_send_error env w ec))) =
           fifo_data (tx_fifo (ts w))
           @ take (min (svm_fifo_max_enqueue (tx_fifo (ts w))) (64 * 1024))
               (http_error_template (http_status_code_str env ec) (timebase_now env))"
    and "events (http_send_error env w ec) =
           events w
           @ (if svm_fifo_max_enqueue (tx_fifo (ts w)) \<noteq> 0 \<and> \<not> has_event (tx_fifo (ts w))
              then [SESSION_IO_EVT_TX] else [])"
    and "hc (http_send_error env w ec) = hc w"
    and "as (http_send_error env w ec) = as w"
    and "rx_fifo (ts (http_send_error env w ec)) = rx_fifo (ts w)"
proof -
  have ne: "http_error_template (http_status_code_str env ec) (timebase_now env) \<noteq> []"
    by (simp add: http_error_template_def)
  note defs = http_send_error_def http_send_data_def Let_def svm_fifo_enqueue_def
          svm_fifo_set_event_def svm_fifo_max_enqueue_def SVM_FIFO_EFULL_def min_def
  show "fifo_data (tx_fifo (ts (http_send_error env w ec))) =
           fifo_data (tx_fifo (ts w))
           @ take (min (svm_fifo_max_enqueue (tx_fifo (ts w))) (64 * 1024))
               (http_error_template (http_status_code_str env ec) (timebase_now env))"
    using assms ne by (auto simp: defs split: prod.splits if_splits)
  show "events (http_send_error env w ec) =
           events w
           @ (if svm_fifo_max_enqueue (tx_fifo (ts w)) \<noteq> 0 \<and> \<not> has_event (tx_fifo (ts w))
              then [SESSION_IO_EVT_TX] else [])"
    using assms ne by (auto simp: defs split: prod.splits if_splits)
  show "hc (http_send_error env w ec) = hc w"
    using assms ne by (auto simp: defs split: prod.splits if_splits)
  show "as (http_send_error env w ec) = as w"
    using assms ne by (auto simp: defs split: prod.splits if_splits)
  show "rx_fifo (ts (http_send_error env w ec)) = rx_fifo (ts w)"
    using assms ne by (auto simp: defs split: prod.splits if_splits)
qed

lemma wait_app_reply_violation:
  assumes "app_reply_violation (app_tx_msg env w)"
  shows "http_state_wait_app_reply env w =
           (HTTP_SM_STOP,
            http_state_wait_app_reply_error env HTTP_STATUS_INTERNAL_ERROR
              (w\<lparr>as := (as w)\<lparr>tx_fifo :=
                     svm_fifo_dequeue_drop (tx_fifo (as w)) (sizeof_msg env)\<rparr>\<rparr>))"
  using assms unfolding app_reply_violation_def
  by (elim disjE)
     (simp_all add: http_state_wait_app_reply_def app_tx_msg_def
        svm_fifo_dequeue_def svm_fifo_dequeue_drop_def Let_def split_beta)


text \<open>
  C8 as the source has it. In WAIT_APP_METHOD a violating message makes the handler
  drop every byte of the app tx queue, notify the app closing and closed, disconnect
  the transport and return ERROR. In WAIT_APP_REPLY a message of the wrong type or
  data type makes the handler consume the message only, leaving the bytes behind it
  in the app tx queue; it enqueues the 500 response on the transport tx queue as far
  as its free space allows, goes back to WAIT_CLIENT_METHOD, notifies the app
  closing (not closed), disconnects the transport and returns STOP.
\<close>

theorem app_protocol_violation:
  "(app_method_violation (app_tx_msg env w) \<and> inline_target_not_empty (app_tx_msg env w) \<longrightarrow>
      fst (http_state_wait_app_method env w) = HTTP_SM_ERROR
      \<and> fifo_data (tx_fifo (as (snd (http_state_wait_app_method env w)))) = []
      \<and> events (snd (http_state_wait_app_method env w)) =
          events w @ [SESSION_TRANSPORT_CLOSING_NOTIFY, SESSION_TRANSPORT_CLOSED_NOTIFY,
                      VNET_DISCONNECT_SESSION]
      \<and> state (hc (snd (http_state_wait_app_method env w))) = HTTP_CONN_STATE_CLOSED)
   \<and> (app_reply_violation (app_tx_msg env w) \<longrightarrow>
      fst (http_state_wait_app_reply env w) = HTTP_SM_STOP
      \<and> fifo_data (tx_fifo (as (snd (http_state_wait_app_reply env w)))) =
          drop (sizeof_msg env) (fifo_data (tx_fifo (as w)))
      \<and> fifo_data (tx_fifo (ts (snd (http_state_wait_app_reply env w)))) =
          fifo_data (tx_fifo (ts w))
          @ take (min (svm_fifo_max_enqueue (tx_fifo (ts w))) (64 * 1024))
              (http_error_template (http_status_code_str env HTTP_STATUS_INTERNAL_ERROR)
                 (timebase_now env))
      \<and> events (snd (http_state_wait_app_reply env w)) =
          events w
          @ (if svm_fifo_max_enqueue (tx_fifo (ts w)) \<noteq> 0 \<and> \<not> has_event (tx_fifo (ts w))
             then [SESSION_IO_EVT_TX] else [])
          @ [SESSION_TRANSPORT_CLOSING_NOTIFY, VNET_DISCONNECT_SESSION]
      \<and> state (hc (snd (http_state_wait_app_reply env w))) = HTTP_CONN_STATE_CLOSED
      \<and> http_state (hc (snd (http_state_wait_app_reply env w))) = HTTP_STATE_WAIT_CLIENT_METHOD)"
proof (intro conjI impI)
  assume "app_method_violation (app_tx_msg env w) \<and> inline_target_not_empty (app_tx_msg env w)"
  then have v: "app_method_violation (app_tx_msg env w)" ..
  note m = wait_app_method_violation [OF v]
  show "fst (http_state_wait_app_method env w) = HTTP_SM_ERROR" by (rule m)
  show "fifo_data (tx_fifo (as (snd (http_state_wait_app_method env w)))) = []" by (rule m)
  show "events (snd (http_state_wait_app_method env w)) =
          events w @ [SESSION_TRANSPORT_CLOSING_NOTIFY, SESSION_TRANSPORT_CLOSED_NOTIFY,
                      VNET_DISCONNECT_SESSION]" by (rule m)
  show "state (hc (snd (http_state_wait_app_method env w))) = HTTP_CONN_STATE_CLOSED" by (rule m)
next
  assume v: "app_reply_violation (app_tx_msg env w)"
  let ?w = "w\<lparr>as := (as w)\<lparr>tx_fifo := svm_fifo_dequeue_drop (tx_fifo (as w)) (sizeof_msg env)\<rparr>\<rparr>"
  note r = wait_app_reply_violation [OF v]
  note e = http_send_error_effect [where ec = HTTP_STATUS_INTERNAL_ERROR and env = env, simplified]
  show "fst (http_state_wait_app_reply env w) = HTTP_SM_STOP"
    by (simp add: r)
  show "fifo_data (tx_fifo (as (snd (http_state_wait_app_reply env w)))) =
          drop (sizeof_msg env) (fifo_data (tx_fifo (as w)))"
    by (simp add: r http_state_wait_app_reply_error_def e svm_fifo_dequeue_drop_def)
  show "fifo_data (tx_fifo (ts (snd (http_state_wait_app_reply env w)))) =
          fifo_data (tx_fifo (ts w))
          @ take (min (svm_fifo_max_enqueue (tx_fifo (ts w))) (64 * 1024))
              (http_error_template (http_status_code_str env HTTP_STATUS_INTERNAL_ERROR)
                 (timebase_now env))"
    by (simp add: r http_state_wait_app_reply_error_def e)
  show "events (snd (http_state_wait_app_reply env w)) =
          events w
          @ (if svm_fifo_max_enqueue (tx_fifo (ts w)) \<noteq> 0 \<and> \<not> has_event (tx_fifo (ts w))
             then [SESSION_IO_EVT_TX] else [])
          @ [SESSION_TRANSPORT_CLOSING_NOTIFY, VNET_DISCONNECT_SESSION]"
    by (simp add: r http_state_wait_app_reply_error_def e)
  show "state (hc (snd (http_state_wait_app_reply env w))) = HTTP_CONN_STATE_CLOSED"
    by (simp add: r http_state_wait_app_reply_error_def e)
  show "http_state (hc (snd (http_state_wait_app_reply env w))) = HTTP_STATE_WAIT_CLIENT_METHOD"
    by (simp add: r http_state_wait_app_reply_error_def e)
qed

text \<open>
  A GET request for the target \<open>/x\<close> with a body of five bytes, handed to a client
  connection in WAIT_APP_METHOD with the target and eight more bytes behind it in the
  app tx queue; and a request handed to a server connection in WAIT_APP_REPLY with
  eight more bytes behind it.
\<close>

definition get_with_body :: http_msg_t where
  "get_with_body = http_msg_zero\<lparr>msg_target_path_len := 2, msg_body_len := 5\<rparr>"

definition app_world :: "bool \<Rightarrow> http_state_t \<Rightarrow> string \<Rightarrow> http_world" where
  "app_world srv st behind =
     world_of (client_conn\<lparr>is_server := srv, http_state := st\<rparr>) [] 4096 4096
       (replicate 56 (CHR ''m'') @ behind)"

theorem app_protocol_violation_witness:
  "app_method_violation
     (app_tx_msg (example_env get_with_body) (app_world False HTTP_STATE_WAIT_APP_METHOD ''/xleftover''))
   \<and> inline_target_not_empty
       (app_tx_msg (example_env get_with_body) (app_world False HTTP_STATE_WAIT_APP_METHOD ''/xleftover''))
   \<and> fst (http_state_wait_app_method (example_env get_with_body)
            (app_world False HTTP_STATE_WAIT_APP_METHOD ''/xleftover'')) = HTTP_SM_ERROR
   \<and> fifo_data (tx_fifo (as (snd (http_state_wait_app_method (example_env get_with_body)
            (app_world False HTTP_STATE_WAIT_APP_METHOD ''/xleftover''))))) = []
   \<and> events (snd (http_state_wait_app_method (example_env get_with_body)
            (app_world False HTTP_STATE_WAIT_APP_METHOD ''/xleftover''))) =
       [SESSION_TRANSPORT_CLOSING_NOTIFY, SESSION_TRANSPORT_CLOSED_NOTIFY, VNET_DISCONNECT_SESSION]
   \<and> app_reply_violation
       (app_tx_msg (example_env http_msg_zero) (app_world True HTTP_STATE_WAIT_APP_REPLY ''leftover''))
   \<and> fst (http_state_wait_app_reply (example_env http_msg_zero)
            (app_world True HTTP_STATE_WAIT_APP_REPLY ''leftover'')) = HTTP_SM_STOP
   \<and> fifo_data (tx_fifo (ts (snd (http_state_wait_app_reply (example_env http_msg_zero)
            (app_world True HTTP_STATE_WAIT_APP_REPLY ''leftover''))))) =
       ''HTTP/1.1 500 Internal Server Error'' @ CRLF @
       ''Date: Thu, 01 Jan 1970 00:00:00 GMT'' @ CRLF @
       ''Connection: close'' @ CRLF @ ''Content-Length: 0'' @ CRLF @ CRLF
   \<and> events (snd (http_state_wait_app_reply (example_env http_msg_zero)
            (app_world True HTTP_STATE_WAIT_APP_REPLY ''leftover''))) =
       [SESSION_IO_EVT_TX, SESSION_TRANSPORT_CLOSING_NOTIFY, VNET_DISCONNECT_SESSION]"
  using
    app_protocol_violation [of "example_env get_with_body"
      "app_world False HTTP_STATE_WAIT_APP_METHOD ''/xleftover''"]
    app_protocol_violation [of "example_env http_msg_zero"
      "app_world True HTTP_STATE_WAIT_APP_REPLY ''leftover''"]
  by (simp add: app_method_violation_def inline_target_not_empty_def app_reply_violation_def
        app_tx_msg_def get_with_body_def app_world_def world_eval conn_eval)

text \<open>
  C8 as the claim states it: every violation detected in WAIT_APP_REPLY makes the core
  drop all bytes of the app tx queue and notify the app closed. For the request handed
  to the server connection above, the eight bytes behind the message stay in the app
  tx queue and no closed notification is made.
\<close>

theorem app_reply_violation_keeps_app_tx:
  "msg_type (app_tx_msg (example_env http_msg_zero)
               (app_world True HTTP_STATE_WAIT_APP_REPLY ''leftover'')) = HTTP_MSG_REQUEST
   \<and> fifo_data (tx_fifo (as (snd (http_state_wait_app_reply (example_env http_msg_zero)
            (app_world True HTTP_STATE_WAIT_APP_REPLY ''leftover''))))) = ''leftover''
   \<and> SESSION_TRANSPORT_CLOSED_NOTIFY \<notin>
       set (events (snd (http_state_wait_app_reply (example_env http_msg_zero)
            (app_world True HTTP_STATE_WAIT_APP_REPLY ''leftover''))))"
  by (simp add: http_state_wait_app_reply_def http_state_wait_app_reply_error_def app_tx_msg_def
        app_world_def world_eval conn_eval)

section \<open>The transport rx callback (C9)\<close>

text \<open>
  The handler that \<open>state_funcs\<close> holds for an rx-valid state.
\<close>

definition rx_handler :: "http_env \<Rightarrow> http_world \<Rightarrow> http_sm_result_t \<times> http_world" where
  "rx_handler env w =
     (if http_state (hc w) = HTTP_STATE_WAIT_SERVER_REPLY then http_state_wait_server_reply env w
      else if http_state (hc w) = HTTP_STATE_CLIENT_IO_MORE_DATA then http_state_client_io_more_data w
      else http_state_wait_client_method env w)"

lemma run_state_machine_rx_valid:
  assumes "http_state_is_rx_valid (hc w)"
  shows "http_req_run_state_machine env w =
           Some (if fst (rx_handler env w) = HTTP_SM_ERROR then snd (rx_handler env w)
                 else notify HTTP_CONN_TIMER_UPDATE (snd (rx_handler env w)))"
proof -
  have nc: "fst (rx_handler env w) \<noteq> HTTP_SM_CONTINUE"
    using wait_client_method_not_continue [of env w] wait_server_reply_not_continue [of env w]
      client_io_more_data_not_continue [of w]
    by (simp add: rx_handler_def)
  obtain h where sf: "state_funcs env (http_state (hc w)) = Some h" and h: "h w = rx_handler env w"
    using assms
    by (auto simp: http_state_is_rx_valid_def state_funcs_def rx_handler_def)
  show ?thesis
    using nc by (subst http_req_run_state_machine.simps) (simp add: sf h split_beta)
qed


text \<open>
  What the callback does, for every world. When the connection is closed or its HTTP
  state is not rx-valid it calls \<open>svm_fifo_dequeue_drop_all (ts->tx_fifo)\<close> and
  returns: the tx queue of the transport session is emptied and nothing else changes,
  so the state machine has not run. Otherwise it runs the state machine, which returns
  after one handler, and then notifies the app closing if the transport is closed and
  its rx queue is empty.
\<close>

lemma ts_rx_callback_effect:
  "(state (hc w) = HTTP_CONN_STATE_CLOSED \<or> \<not> http_state_is_rx_valid (hc w) \<longrightarrow>
      http_ts_rx_callback env w =
        Some (w\<lparr>ts := (ts w)\<lparr>tx_fifo := (tx_fifo (ts w))\<lparr>fifo_data := []\<rparr>\<rparr>\<rparr>))
   \<and> (state (hc w) \<noteq> HTTP_CONN_STATE_CLOSED \<and> http_state_is_rx_valid (hc w) \<longrightarrow>
      (\<exists>w1. http_req_run_state_machine env w = Some w1
         \<and> w1 = (if fst (rx_handler env w) = HTTP_SM_ERROR then snd (rx_handler env w)
                 else notify HTTP_CONN_TIMER_UPDATE (snd (rx_handler env w)))
         \<and> http_ts_rx_callback env w =
             Some (if state (hc w1) = HTTP_CONN_STATE_TRANSPORT_CLOSED
                      \<and> svm_fifo_max_dequeue (rx_fifo (ts w1)) = 0
                   then notify SESSION_TRANSPORT_CLOSING_NOTIFY w1 else w1)))"
proof (intro conjI impI)
  assume "state (hc w) = HTTP_CONN_STATE_CLOSED \<or> \<not> http_state_is_rx_valid (hc w)"
  then show "http_ts_rx_callback env w =
        Some (w\<lparr>ts := (ts w)\<lparr>tx_fifo := (tx_fifo (ts w))\<lparr>fifo_data := []\<rparr>\<rparr>\<rparr>)"
    by (auto simp: http_ts_rx_callback_def svm_fifo_dequeue_drop_all_def)
next
  assume a: "state (hc w) \<noteq> HTTP_CONN_STATE_CLOSED \<and> http_state_is_rx_valid (hc w)"
  then have rv: "http_state_is_rx_valid (hc w)" ..
  show "\<exists>w1. http_req_run_state_machine env w = Some w1
         \<and> w1 = (if fst (rx_handler env w) = HTTP_SM_ERROR then snd (rx_handler env w)
                 else notify HTTP_CONN_TIMER_UPDATE (snd (rx_handler env w)))
         \<and> http_ts_rx_callback env w =
             Some (if state (hc w1) = HTTP_CONN_STATE_TRANSPORT_CLOSED
                      \<and> svm_fifo_max_dequeue (rx_fifo (ts w1)) = 0
                   then notify SESSION_TRANSPORT_CLOSING_NOTIFY w1 else w1)"
    using a by (simp add: http_ts_rx_callback_def run_state_machine_rx_valid [OF rv])
qed

text \<open>
  A closed connection with seven bytes pending in the app tx queue and six bytes,
  not yet sent, in the tx queue of the transport session.
\<close>

definition pending_world :: http_world where
  "pending_world =
     (world_of (client_conn\<lparr>state := HTTP_CONN_STATE_CLOSED\<rparr>) ''abc'' 4096 4096 ''pending'')
       \<lparr>ts := \<lparr>rx_fifo = fifo_of ''abc'' 4096, tx_fifo = fifo_of ''queued'' 4096\<rparr>\<rparr>"

text \<open>
  C9. The claim: when the callback fires on a closed connection, the core drops all
  app tx bytes and returns without running the state machine. The source drops
  \<open>ts->tx_fifo\<close>, the tx queue of the transport session it was called with, where
  \<open>http_app_tx_callback\<close> in the same position drops \<open>as->tx_fifo\<close>: on the closed
  connection above the callback returns with the seven bytes of the app tx queue still
  there and the six bytes queued for the peer gone.
\<close>

theorem ts_rx_callback_keeps_app_tx:
  "state (hc pending_world) = HTTP_CONN_STATE_CLOSED
   \<and> fifo_data (tx_fifo (as pending_world)) = ''pending''
   \<and> fifo_data (tx_fifo (ts pending_world)) = ''queued''
   \<and> map_option (\<lambda>w. fifo_data (tx_fifo (as w)))
       (http_ts_rx_callback (example_env http_msg_zero) pending_world) = Some ''pending''
   \<and> map_option (\<lambda>w. fifo_data (tx_fifo (ts w)))
       (http_ts_rx_callback (example_env http_msg_zero) pending_world) = Some []"
  by (simp add: http_ts_rx_callback_def pending_world_def world_eval conn_eval)

section \<open>Classification of the request target (C6)\<close>

text \<open>
  The claim in its own words. \<open>spec_contains t s\<close>: the target \<open>t\<close> contains the string
  \<open>s\<close>. \<open>spec_colon_digit t\<close>: \<open>t\<close> contains a colon followed by an ASCII digit.
  \<open>spec_split_query form off region\<close>: the path region, which starts at offset \<open>off\<close> of
  the buffer, is split at its first question mark, which is counted in neither length;
  without a question mark the query offset and length stay 0.
  \<open>spec_request_target off t\<close>: the form, path offset, path length, query offset and
  query length of the target \<open>t\<close> that starts at offset \<open>off\<close>, the forms tested in the
  order asterisk, origin, absolute, authority; \<open>None\<close> when no form matches.
\<close>

fun spec_contains :: "string \<Rightarrow> string \<Rightarrow> bool" where
  "spec_contains [] s = (s = [])"
| "spec_contains (c # cs) s = (take (length s) (c # cs) = s \<or> spec_contains cs s)"

fun spec_colon_digit :: "string \<Rightarrow> bool" where
  "spec_colon_digit (a # b # cs) = (a = CHR '':'' \<and> isdigit b \<or> spec_colon_digit (b # cs))"
| "spec_colon_digit _ = False"

definition spec_split_query ::
  "http_target_form_t \<Rightarrow> nat \<Rightarrow> string \<Rightarrow> http_target_form_t \<times> nat \<times> nat \<times> nat \<times> nat" where
  "spec_split_query form off region =
     (let path = takeWhile (\<lambda>c. c \<noteq> CHR ''?'') region in
      if CHR ''?'' \<in> set region then
        (form, off, length path, off + length path + 1, length region - length path - 1)
      else (form, off, length region, 0, 0))"

definition spec_request_target ::
  "nat \<Rightarrow> string \<Rightarrow> (http_target_form_t \<times> nat \<times> nat \<times> nat \<times> nat) option" where
  "spec_request_target off t =
     (if t = ''*'' then Some (HTTP_TARGET_ASTERISK_FORM, off, 1, 0, 0)
      else if hd t = CHR ''/'' then Some (spec_split_query HTTP_TARGET_ORIGIN_FORM (off + 1) (tl t))
      else if spec_contains t ''://'' then Some (spec_split_query HTTP_TARGET_ABSOLUTE_FORM off t)
      else if spec_colon_digit t then Some (HTTP_TARGET_AUTHORITY_FORM, off, length t, 0, 0)
      else None)"

text \<open>The five fields of the connection that describe the parsed target.\<close>

definition target_of :: "http_conn_t \<Rightarrow> http_target_form_t \<times> nat \<times> nat \<times> nat \<times> nat" where
  "target_of c =
     (target_form c, target_path_offset c, target_path_len c, target_query_offset c,
      target_query_len c)"

subsection \<open>The loops of the source against the words of the claim\<close>

lemma s32_small: "n < 2 ^ 31 \<Longrightarrow> s32 n = int n"
  by (simp add: s32_def)

lemma u32_of_int_small: "0 \<le> i \<Longrightarrow> i < 2 ^ 32 \<Longrightarrow> u32_of_int i = nat i"
  by (simp add: u32_of_int_def)

lemma v_find_loop_first:
  assumes "s \<le> p" "p \<le> e" "memcmp_eq vec p str"
      and "\<forall>k. s \<le> k \<and> k < p \<longrightarrow> \<not> memcmp_eq vec k str"
  shows "v_find_loop vec str s e = p"
  using assms
proof (induction vec str s e rule: v_find_loop.induct)
  case (1 vec str s e)
  show ?case
  proof (cases "memcmp_eq vec s str")
    case True
    with 1 have "s = p" by force
    with True 1(3) show ?thesis by (subst v_find_loop.simps) simp
  next
    case False
    with 1 have sp: "s + 1 \<le> p" by (cases "s = p") auto
    have "v_find_loop vec str (s + 1) e = p"
      using 1 False sp by (intro 1(1)) auto
    with False 1 show ?thesis by (subst v_find_loop.simps) simp
  qed
qed

lemma v_find_loop_none:
  assumes "\<forall>k. s \<le> k \<and> k \<le> e \<longrightarrow> \<not> memcmp_eq vec k str"
  shows "v_find_loop vec str s e = - 1"
  using assms
proof (induction vec str s e rule: v_find_loop.induct)
  case (1 vec str s e)
  show ?case
  proof (cases "s \<le> e")
    case True
    with 1 have "\<not> memcmp_eq vec s str" by simp
    moreover have "v_find_loop vec str (s + 1) e = - 1"
      using 1 True \<open>\<not> memcmp_eq vec s str\<close> by (intro 1(1)) auto
    ultimately show ?thesis using True by (subst v_find_loop.simps) simp
  next
    case False
    then show ?thesis by (subst v_find_loop.simps) simp
  qed
qed

lemma v_find_loop_found:
  assumes "s \<le> k" "k \<le> e" "memcmp_eq vec k str"
  shows "s \<le> v_find_loop vec str s e"
  using assms
proof (induction vec str s e rule: v_find_loop.induct)
  case (1 vec str s e)
  show ?case
  proof (cases "memcmp_eq vec s str")
    case True
    with 1 show ?thesis by (subst v_find_loop.simps) simp
  next
    case False
    with 1 have sk: "s + 1 \<le> k" by (cases "s = k") auto
    have "s + 1 \<le> v_find_loop vec str (s + 1) e"
      using 1 False sk by (intro 1(1)) auto
    with False 1 show ?thesis by (subst v_find_loop.simps) simp
  qed
qed

lemma v_find_loop_pos_iff:
  assumes "0 < s"
  shows "(0 < v_find_loop vec str s e) = (\<exists>k. s \<le> k \<and> k \<le> e \<and> memcmp_eq vec k str)"
proof
  assume "0 < v_find_loop vec str s e"
  then show "\<exists>k. s \<le> k \<and> k \<le> e \<and> memcmp_eq vec k str"
    using v_find_loop_none [of s e vec str] by force
next
  assume "\<exists>k. s \<le> k \<and> k \<le> e \<and> memcmp_eq vec k str"
  then show "0 < v_find_loop vec str s e"
    using v_find_loop_found [of s _ e vec str] assms by force
qed

lemma spec_contains_iff:
  assumes "s \<noteq> []"
  shows "spec_contains t s = (\<exists>i. i + length s \<le> length t \<and> take (length s) (drop i t) = s)"
proof (induction t)
  case Nil
  then show ?case using assms by simp
next
  case (Cons c cs)
  have "(\<exists>i. i + length s \<le> length (c # cs) \<and> take (length s) (drop i (c # cs)) = s)
        = (take (length s) (c # cs) = s
           \<or> (\<exists>i. i + length s \<le> length cs \<and> take (length s) (drop i cs) = s))"
    (is "?L = (?A \<or> ?B)")
  proof
    assume ?L
    then obtain i where i: "i + length s \<le> length (c # cs)" "take (length s) (drop i (c # cs)) = s"
      by blast
    show "?A \<or> ?B"
    proof (cases i)
      case 0
      with i show ?thesis by simp
    next
      case (Suc j)
      with i have "j + length s \<le> length cs \<and> take (length s) (drop j cs) = s" by simp
      then show ?thesis by blast
    qed
  next
    assume "?A \<or> ?B"
    then show ?L
    proof
      assume a: ?A
      then have "length (take (length s) (c # cs)) = length s" by simp
      then have "length s \<le> length (c # cs)"
        by (simp add: min_def split: if_splits)
      with a show ?L by (intro exI [of _ 0]) simp
    next
      assume ?B
      then obtain i where "i + length s \<le> length cs" "take (length s) (drop i cs) = s" by blast
      then show ?L by (intro exI [of _ "Suc i"]) simp
    qed
  qed
  with Cons show ?case by simp
qed

lemma query_loop_spec:
  "query_loop (A @ r @ B) (length A) (length A + length r) =
     (if CHR ''?'' \<in> set r
      then Some (length A + length (takeWhile (\<lambda>c. c \<noteq> CHR ''?'') r)) else None)"
proof (induction r arbitrary: A)
  case Nil
  show ?case by (subst query_loop.simps) simp
next
  case (Cons c r)
  have ih: "query_loop ((A @ [c]) @ r @ B) (length (A @ [c])) (length (A @ [c]) + length r) =
     (if CHR ''?'' \<in> set r
      then Some (length (A @ [c]) + length (takeWhile (\<lambda>c. c \<noteq> CHR ''?'') r)) else None)"
    by (rule Cons.IH)
  show ?case
    using ih by (subst query_loop.simps) (simp add: nth_append)
qed

lemma authority_loop_spec:
  "authority_loop (A @ t @ b # B) (length A) (length A + length t) = spec_colon_digit (t @ [b])"
proof (induction t arbitrary: A)
  case Nil
  show ?case by (subst authority_loop.simps) simp
next
  case (Cons c t)
  have ih: "authority_loop ((A @ [c]) @ t @ b # B) (length (A @ [c])) (length (A @ [c]) + length t) =
              spec_colon_digit (t @ [b])"
    by (rule Cons.IH)
  obtain x xs where x: "t @ [b] = x # xs" by (cases "t @ [b]") auto
  have hx: "t \<noteq> [] \<Longrightarrow> t ! 0 = x" "t = [] \<Longrightarrow> b = x"
    using x by (cases t; simp)+
  show ?case
    using ih by (subst authority_loop.simps) (auto simp: nth_append x hx)
qed

lemma spec_colon_digit_snoc:
  "\<not> isdigit b \<Longrightarrow> spec_colon_digit (t @ [b]) = spec_colon_digit t"
  by (induction t rule: spec_colon_digit.induct) auto

lemma length_takeWhile_less:
  "x \<in> set r \<Longrightarrow> \<not> P x \<Longrightarrow> length (takeWhile P r) < length r"
  by (induction r) auto

lemma http_identify_optional_query_spec:
  assumes buf: "rx_buf c = A @ r @ B"
      and off: "target_path_offset c = length A"
      and len: "target_path_len c = length r"
      and lt: "length (rx_buf c) < 2 ^ 31"
      and q0: "target_query_offset c = 0" "target_query_len c = 0"
  shows "target_of (http_identify_optional_query c) = spec_split_query (target_form c) (length A) r"
proof (cases "CHR ''?'' \<in> set r")
  case False
  then show ?thesis
    by (simp add: http_identify_optional_query_def buf off len q0 query_loop_spec
          spec_split_query_def target_of_def)
next
  case True
  define n where "n = length (takeWhile (\<lambda>c. c \<noteq> CHR ''?'') r)"
  have nr: "n < length r"
    unfolding n_def using True by (rule length_takeWhile_less) simp
  have bound: "length A + length r < 2 ^ 32"
    using lt by (simp add: buf)
  have s1: "u32_sub (length A + length r) (Suc (length A + n)) = length r - Suc n"
    using nr bound by (subst u32_sub_le) auto
  have s2: "u32_sub (length r) (length r - Suc n) = Suc n"
    using nr bound by (subst u32_sub_le) auto
  have s3: "u32_sub (Suc n) (Suc 0) = n"
    using nr bound by (subst u32_sub_le) auto
  show ?thesis
    using True
    by (simp add: http_identify_optional_query_def buf off len query_loop_spec
          spec_split_query_def target_of_def Let_def n_def [symmetric] s1 s2 s3)
qed

lemma v_find_index_bounded:
  assumes "length str \<le> 16" "length str \<le> num" "offset + num \<le> length vec"
      and "length vec < 2 ^ 31" "length str < length vec" "0 < num"
  shows "v_find_index vec offset num str =
           v_find_loop vec str (int offset) (int (offset + num - length str))"
proof -
  define slen where "slen = length str"
  define vlen where "vlen = length vec"
  note a = assms [folded slen_def vlen_def]
  have t16: "take 16 str = str" using assms(1) by simp
  have s1: "s32 offset = int offset"
    using a by (intro s32_small) simp
  have s2: "s32 (vlen - slen) = int (vlen - slen)"
    using a by (intro s32_small) simp
  have s3: "u32_of_int (int (vlen - slen)) = vlen - slen"
    using a by (subst u32_of_int_small) auto
  have s4: "u32_sub (offset + num) slen = offset + num - slen"
    using a by (subst u32_sub_le) auto
  have s5: "min (vlen - slen) (offset + num - slen) = offset + num - slen"
    using a by simp
  have s6: "s32 (offset + num - slen) = int (offset + num - slen)"
    using a by (intro s32_small) simp
  show ?thesis
    unfolding v_find_index_def Let_def t16 slen_def [symmetric] vlen_def [symmetric]
    using a by (simp only: s1 s2 s3 s4 s5 s6 if_False if_True not_le not_less) simp
qed

lemma memcmp_eq_inside:
  assumes "i + length s \<le> length t"
  shows "memcmp_eq (A @ t @ B) (int (length A + i)) s = (take (length s) (drop i t) = s)"
  unfolding memcmp_eq_def nat_int using assms by simp

lemma v_find_index_unbounded:
  assumes "length str \<le> 16" "offset < 2 ^ 31" "length vec < 2 ^ 31" "length str < length vec"
  shows "v_find_index vec offset 0 str =
           v_find_loop vec str (int offset) (int (length vec - length str))"
proof -
  have t16: "take 16 str = str" using assms(1) by simp
  have s1: "s32 offset = int offset"
    using assms by (intro s32_small) simp
  have s2: "s32 (length vec - length str) = int (length vec - length str)"
    using assms by (intro s32_small) simp
  show ?thesis
    using assms unfolding v_find_index_def Let_def t16 by (simp add: s1 s2)
qed

lemma absolute_search:
  assumes A: "A \<noteq> []" and t: "t \<noteq> []" and lt: "length (A @ t @ b # B) < 2 ^ 31"
  shows "(0 < v_find_index (A @ t @ b # B) (length A) (length t) ''://'') = spec_contains t ''://''"
proof (cases "length t < 3")
  case True
  then have "\<not> spec_contains t ''://''"
    by (simp add: spec_contains_iff)
  moreover have "v_find_index (A @ t @ b # B) (length A) (length t) ''://'' = - 1"
    using True t by (simp add: v_find_index_def Let_def)
  ultimately show ?thesis by simp
next
  case False
  define buf where "buf = A @ t @ b # B"
  define e where "e = length A + length t - 3"
  have vl: "length buf = length A + length t + 1 + length B"
    by (simp add: buf_def)
  have lt': "length buf < 2 ^ 31" using lt by (simp add: buf_def)
  have a0: "0 < length A" using A by simp
  have vf: "v_find_index buf (length A) (length t) ''://'' =
              v_find_loop buf ''://'' (int (length A)) (int e)"
    using False t vl lt' v_find_index_bounded [of "''://''" "length t" "length A" buf]
    by (simp add: e_def)
  have key: "memcmp_eq buf (int (length A + i)) ''://'' = (take 3 (drop i t) = ''://'')"
    if "i + 3 \<le> length t" for i
    using that memcmp_eq_inside [of i "''://''" t A "b # B"] by (simp add: buf_def numeral_3_eq_3)
  have "(\<exists>k. int (length A) \<le> k \<and> k \<le> int e \<and> memcmp_eq buf k ''://'')
        = (\<exists>i. i + 3 \<le> length t \<and> take 3 (drop i t) = ''://'')" (is "?L = ?R")
  proof
    assume ?L
    then obtain k where k: "int (length A) \<le> k" "k \<le> int e" "memcmp_eq buf k ''://''" by blast
    define i where "i = nat k - length A"
    have ki: "k = int (length A + i)" using k by (simp add: i_def)
    have i3: "i + 3 \<le> length t" using k False by (simp add: i_def e_def)
    from k(3) have "take 3 (drop i t) = ''://''"
      unfolding ki using key [OF i3] by simp
    with i3 show ?R by blast
  next
    assume ?R
    then obtain i where i: "i + 3 \<le> length t" "take 3 (drop i t) = ''://''" by blast
    have "int (length A) \<le> int (length A + i)" "int (length A + i) \<le> int e"
      using i by (simp_all add: e_def)
    moreover have "memcmp_eq buf (int (length A + i)) ''://''"
      using key [OF i(1)] i(2) by simp
    ultimately show ?L by blast
  qed
  then show ?thesis
    using a0 unfolding buf_def [symmetric] vf
    by (simp add: v_find_loop_pos_iff spec_contains_iff numeral_3_eq_3)
qed

lemma http_get_target_form_spec:
  assumes buf: "rx_buf c = A @ t @ b # B"
      and off: "target_path_offset c = length A"
      and len: "target_path_len c = length t"
      and A: "A \<noteq> []" and t: "t \<noteq> []" and b: "\<not> isdigit b"
      and lt: "length (rx_buf c) < 2 ^ 31"
      and q0: "target_query_offset c = 0" "target_query_len c = 0"
  shows "case spec_request_target (length A) t of
           None \<Rightarrow> fst (http_get_target_form c) = - 1
         | Some tgt \<Rightarrow> fst (http_get_target_form c) = 0
                       \<and> target_of (snd (http_get_target_form c)) = tgt"
proof -
  obtain x xs where tx: "t = x # xs" using t by (cases t) auto
  have b0: "rx_buf c ! length A = x" by (simp add: buf tx)
  have l1: "(length t = Suc 0) = (xs = [])" by (simp add: tx)
  have ast: "(t = ''*'') = (x = CHR ''*'' \<and> xs = [])" by (simp add: tx)
  have srch: "(0 < v_find_index (rx_buf c) (length A) (length t) ''://'') = spec_contains t ''://''"
    unfolding buf using A t lt [unfolded buf] by (rule absolute_search)
  have auth: "authority_loop (rx_buf c) (length A) (length A + length t) = spec_colon_digit t"
    unfolding buf by (simp only: authority_loop_spec spec_colon_digit_snoc [OF b])
  consider (asterisk) "x = CHR ''*''" "xs = []"
    | (origin) "x = CHR ''/''"
    | (absolute) "\<not> (x = CHR ''*'' \<and> xs = [])" "x \<noteq> CHR ''/''" "spec_contains t ''://''"
    | (authority) "\<not> (x = CHR ''*'' \<and> xs = [])" "x \<noteq> CHR ''/''" "\<not> spec_contains t ''://''"
        "spec_colon_digit t"
    | (none) "\<not> (x = CHR ''*'' \<and> xs = [])" "x \<noteq> CHR ''/''" "\<not> spec_contains t ''://''"
        "\<not> spec_colon_digit t"
    by blast
  then show ?thesis
  proof cases
    case asterisk
    then show ?thesis
      by (simp add: http_get_target_form_def spec_request_target_def off len b0 l1 ast
            target_of_def q0)
  next
    case origin
    let ?c = "c\<lparr>target_path_len := u32_sub (target_path_len c) 1,
                target_path_offset := target_path_offset c + 1,
                target_form := HTTP_TARGET_ORIGIN_FORM\<rparr>"
    have u: "u32_sub (Suc (length xs)) (Suc 0) = length xs"
      using lt by (subst u32_sub_le) (simp_all add: tx buf)
    have "target_of (http_identify_optional_query ?c) =
            spec_split_query (target_form ?c) (length (A @ [x])) xs"
      using lt by (intro http_identify_optional_query_spec [where B = "b # B"])
                  (simp_all add: buf tx off len u q0)
    then show ?thesis
      using origin
      by (simp add: http_get_target_form_def spec_request_target_def off len b0 l1 ast tx u)
  next
    case absolute
    let ?c = "c\<lparr>target_form := HTTP_TARGET_ABSOLUTE_FORM\<rparr>"
    have "target_of (http_identify_optional_query ?c) =
            spec_split_query (target_form ?c) (length A) t"
      using lt by (intro http_identify_optional_query_spec [where B = "b # B"])
                  (simp_all add: buf off len q0)
    then show ?thesis
      using absolute srch
      by (simp add: http_get_target_form_def spec_request_target_def off len b0 l1 ast)
         (auto simp: tx)
  next
    case authority
    then show ?thesis
      using srch auth
      by (simp add: http_get_target_form_def spec_request_target_def off len b0 l1 ast
            target_of_def q0)
         (auto simp: tx)
  next
    case none
    then show ?thesis
      using srch auth
      by (simp add: http_get_target_form_def spec_request_target_def off len b0 l1 ast)
         (auto simp: tx)
  qed
qed

subsection \<open>The request line up to its target\<close>

lemma memcmp_eq_nth:
  assumes "memcmp_eq vec k (y # ys)"
  shows "nat k < length vec \<and> vec ! nat k = y"
proof -
  from assms have d: "take (Suc (length ys)) (drop (nat k) vec) = y # ys"
    by (simp add: memcmp_eq_def)
  then have ne: "drop (nat k) vec \<noteq> []" by auto
  then have lt: "nat k < length vec" by simp
  from d have "hd (drop (nat k) vec) = y"
    by (cases "drop (nat k) vec") auto
  with lt show ?thesis by (simp add: hd_drop_conv_nth)
qed

lemma memcmp_eq_at: "memcmp_eq (A @ s @ B) (int (length A)) s"
  by (simp add: memcmp_eq_def)

lemma nth_mid:
  "length A \<le> n \<Longrightarrow> n - length A < length M \<Longrightarrow> (A @ M @ B) ! n = M ! (n - length A)"
  by (simp add: nth_append)

lemma request_line_prefix:
  assumes buf: "rx_buf hc0 = pre @ t @ '' HTTP/1.'' @ [d] @ CRLF @ rest"
      and pre: "pre \<in> {''GET '', ''POST '', CRLF @ ''GET '', CRLF @ ''POST ''}"
      and t: "t \<noteq> []" and cr: "CR \<notin> set t" and d: "d \<noteq> CR"
      and rest: "2 \<le> length rest"
      and lt: "length (rx_buf hc0) < 2 ^ 31"
  shows "\<exists>meth.
           http_parse_request_line hc0 =
             (case http_get_target_form
                     (hc0\<lparr>control_data_len := length pre + length t + 11,
                          req_method := meth,
                          target_path_offset := length pre,
                          target_path_len := length t,
                          target_query_offset := 0,
                          target_query_len := 0\<rparr>) of
                (rv, hc4) \<Rightarrow>
                  if rv \<noteq> 0 then (Some HTTP_STATUS_BAD_REQUEST, hc4)
                  else (None, hc4\<lparr>rx_buf_offset := length pre + length t + 11\<rparr>))"
proof -
  define p where "p = length pre + length t + 9"
  define V where "V = '' HTTP/1.'' @ [d]"
  let ?buf = "rx_buf hc0"
  have buf': "?buf = (pre @ t @ V) @ CRLF @ rest"
    by (simp add: buf V_def)
  have pl: "4 \<le> length pre" "length pre \<le> 7"
    using pre by auto
  have len: "length ?buf = p + 2 + length rest"
    by (simp add: buf p_def)
  have p14: "14 \<le> p" using pl t by (cases t) (simp_all add: p_def)
  have pv: "length (pre @ t @ V) = p"
    by (simp add: p_def V_def)
  have at_p: "memcmp_eq ?buf (int p) CRLF"
    unfolding buf' pv [symmetric] by (rule memcmp_eq_at)
  have crV: "CR \<notin> set (t @ V)"
    using cr d by (simp add: V_def)
  have before_p: "\<not> memcmp_eq ?buf k CRLF" if k: "8 \<le> k" "k < int p" for k
  proof
    assume "memcmp_eq ?buf k CRLF"
    then have n: "?buf ! nat k = CR" by (simp add: memcmp_eq_nth)
    have r: "length pre \<le> nat k" "nat k - length pre < length (t @ V)"
      using k pl by (simp_all add: p_def V_def) 
    have "?buf = pre @ (t @ V) @ (CRLF @ rest)"
      by (simp add: buf')
    then have "?buf ! nat k = (t @ V) ! (nat k - length pre)"
      using r by (simp only: nth_mid)
    with n r(2) have "CR \<in> set (t @ V)"
      by (metis nth_mem)
    with crV show False ..
  qed
  have f1: "v_find_index ?buf 8 0 CRLF = int p"
  proof -
    have "v_find_index ?buf 8 0 CRLF = v_find_loop ?buf CRLF (int 8) (int (length ?buf - length CRLF))"
      using lt len p14 by (intro v_find_index_unbounded) simp_all
    also have "\<dots> = int p"
      using p14 at_p before_p by (intro v_find_loop_first) (simp_all add: len)
    finally show ?thesis .
  qed
  have bufv: "?buf = (pre @ t) @ '' HTTP/'' @ (''1.'' @ [d] @ CRLF @ rest)"
    by (simp add: buf)
  have "memcmp_eq ?buf (int (length (pre @ t))) '' HTTP/''"
    unfolding bufv by (rule memcmp_eq_at)
  then have at_v: "memcmp_eq ?buf (int (length pre + length t)) '' HTTP/''"
    by (simp only: length_append)
  have f4: "v_find_index ?buf (length pre + length t) 11 '' HTTP/'' = int (length pre + length t)"
  proof -
    have "v_find_index ?buf (length pre + length t) 11 '' HTTP/'' =
            v_find_loop ?buf '' HTTP/'' (int (length pre + length t))
              (int (length pre + length t + 11 - length '' HTTP/''))"
      using lt len p14 by (intro v_find_index_bounded) (simp_all add: p_def)
    also have "\<dots> = int (length pre + length t)"
      using at_v by (intro v_find_loop_first) auto
    finally show ?thesis .
  qed
  define j where "j = length pre + length t"
  have pj: "p = j + 9" by (simp add: p_def j_def)
  define q where "q = p + 2"
  define j6 where "j6 = j + 6"
  have nq: "nat (int p + 2) = q" by (simp add: q_def)
  have n6: "nat (int j + 6) = j6" by (simp add: j6_def)
  have u11: "u32_sub q 11 = j"
    using lt len by (subst u32_sub_le) (simp_all add: pj q_def)
  have f4': "v_find_index ?buf j 11 '' HTTP/'' = int j"
    using f4 by (simp only: j_def)
  have b5: "?buf = (pre @ t @ '' HTTP/'') @ CHR ''1'' # (''.'' @ [d] @ CRLF @ rest)"
    by (simp add: buf)
  have l5: "length (pre @ t @ '' HTTP/'') = j + 6"
    by (simp add: j_def)
  have "?buf ! length (pre @ t @ '' HTTP/'') = CHR ''1''"
    unfolding b5 by (rule nth_append_length)
  then have f5: "?buf ! j6 = CHR ''1''"
    by (simp only: l5 j6_def)
  have one: "isdigit (CHR ''1'')" by (simp add: isdigit_def)
  have len2: "\<not> length ?buf < Suc (Suc q)" using rest by (simp add: len q_def)
  have tj: "\<not> int j - int (length pre) < 1" "nat (int j - int (length pre)) = length t"
    using t by (cases t; simp add: j_def)+
  note core = http_parse_request_line_def Let_def split_beta f1 nq n6 len2 u11 f4' f5 one
  have "\<exists>meth.
           http_parse_request_line hc0 =
             (case http_get_target_form
                     (hc0\<lparr>control_data_len := q,
                          req_method := meth,
                          target_path_offset := length pre,
                          target_path_len := length t,
                          target_query_offset := 0,
                          target_query_len := 0\<rparr>) of
                (rv, hc4) \<Rightarrow>
                  if rv \<noteq> 0 then (Some HTTP_STATUS_BAD_REQUEST, hc4)
                  else (None, hc4\<lparr>rx_buf_offset := q\<rparr>))"
  proof -
    from pre consider (g) "pre = ''GET ''" | (p) "pre = ''POST ''"
      | (cg) "pre = CRLF @ ''GET ''" | (cp) "pre = CRLF @ ''POST ''" by auto
    then show ?thesis
    proof cases
      case g
      have m: "?buf ! 0 = CHR ''G''" "memcmp_eq ?buf 0 ''GET ''"
        by (simp_all add: buf g memcmp_eq_def)
      have lp: "length pre = 4" by (simp add: g)
      show ?thesis
        using tj unfolding lp
        by (intro exI [of _ HTTP_REQ_GET]) (simp add: core m)
    next
      case p
      have m: "?buf ! 0 = CHR ''P''" "\<not> memcmp_eq ?buf 0 ''GET ''" "memcmp_eq ?buf 0 ''POST ''"
        by (simp_all add: buf p memcmp_eq_def)
      have lp: "length pre = 5" by (simp add: p)
      show ?thesis
        using tj unfolding lp
        by (intro exI [of _ HTTP_REQ_POST]) (simp add: core m)
    next
      case cg
      have m: "?buf ! 0 = CR" "?buf ! Suc 0 = LF" "memcmp_eq ?buf 2 ''GET ''"
        by (simp_all add: buf cg memcmp_eq_def)
      have lp: "length pre = 6" by (simp add: cg)
      show ?thesis
        using tj unfolding lp
        by (intro exI [of _ HTTP_REQ_GET]) (simp add: core m)
    next
      case cp
      have m: "?buf ! 0 = CR" "?buf ! Suc 0 = LF" "\<not> memcmp_eq ?buf 2 ''GET ''"
          "memcmp_eq ?buf 2 ''POST ''"
        by (simp_all add: buf cp memcmp_eq_def)
      have lp: "length pre = 7" by (simp add: cp)
      show ?thesis
        using tj unfolding lp
        by (intro exI [of _ HTTP_REQ_POST]) (simp add: core m)
    qed
  qed
  moreover have "q = length pre + length t + 11"
    by (simp add: p_def q_def)
  ultimately show ?thesis
    by (simp only:)
qed

text \<open>
  C6. For a request line \<open>method SP target SP HTTP/1.d CRLF\<close>, with or without an
  empty line before it, followed by at least two more bytes, where the target is not
  empty and holds no CR: \<open>http_parse_request_line\<close> succeeds exactly when the claim's
  classification of the target gives a form, and then the form, the path offset and
  length, and the query offset and length it stores are those of the claim: a target
  \<open>*\<close> is in asterisk form; else a target that starts with a slash is in origin form,
  the slash stripped, and split at its first question mark; else a target that
  contains \<open>://\<close> is in absolute form, likewise split; else a target that contains a
  colon followed by a digit is in authority form; and any other target fails with
  BadRequest.
\<close>

theorem request_target_classification:
  assumes buf: "rx_buf hc0 = pre @ t @ '' HTTP/1.'' @ [d] @ CRLF @ rest"
      and pre: "pre \<in> {''GET '', ''POST '', CRLF @ ''GET '', CRLF @ ''POST ''}"
      and t: "t \<noteq> []" and cr: "CR \<notin> set t" and d: "d \<noteq> CR"
      and rest: "2 \<le> length rest"
      and lt: "length (rx_buf hc0) < 2 ^ 31"
  shows "case spec_request_target (length pre) t of
           None \<Rightarrow> fst (http_parse_request_line hc0) = Some HTTP_STATUS_BAD_REQUEST
         | Some tgt \<Rightarrow> fst (http_parse_request_line hc0) = None
                       \<and> target_of (snd (http_parse_request_line hc0)) = tgt"
proof -
  from request_line_prefix [OF assms] obtain meth where
    eq: "http_parse_request_line hc0 =
             (case http_get_target_form
                     (hc0\<lparr>control_data_len := length pre + length t + 11,
                          req_method := meth,
                          target_path_offset := length pre,
                          target_path_len := length t,
                          target_query_offset := 0,
                          target_query_len := 0\<rparr>) of
                (rv, hc4) \<Rightarrow>
                  if rv \<noteq> 0 then (Some HTTP_STATUS_BAD_REQUEST, hc4)
                  else (None, hc4\<lparr>rx_buf_offset := length pre + length t + 11\<rparr>))"
    by blast
  let ?c = "hc0\<lparr>control_data_len := length pre + length t + 11,
                          req_method := meth,
                          target_path_offset := length pre,
                          target_path_len := length t,
                          target_query_offset := 0,
                          target_query_len := 0\<rparr>"
  have pne: "pre \<noteq> []" using pre by auto
  have sp: "case spec_request_target (length pre) t of
           None \<Rightarrow> fst (http_get_target_form ?c) = - 1
         | Some tgt \<Rightarrow> fst (http_get_target_form ?c) = 0
                       \<and> target_of (snd (http_get_target_form ?c)) = tgt"
    using pne t lt
    by (intro http_get_target_form_spec [where b = "CHR '' ''" and B = "''HTTP/1.'' @ [d] @ CRLF @ rest"])
       (simp_all add: buf isdigit_def)
  show ?thesis
    using sp unfolding eq
    by (simp add: split_beta target_of_def split: option.splits)
qed

text \<open>
  One request line for each form, one whose target matches no form, and one whose
  target starts with a slash and also contains \<open>://\<close> and a colon before a digit, which
  is in origin form.
\<close>

theorem request_target_classification_witness:
  "fst (http_parse_request_line (server_conn (''GET /a/b?x=1 HTTP/1.1'' @ CRLF @ CRLF))) = None
   \<and> target_of (snd (http_parse_request_line (server_conn (''GET /a/b?x=1 HTTP/1.1'' @ CRLF @ CRLF)))) =
       (HTTP_TARGET_ORIGIN_FORM, length ''GET /'', length ''a/b'', length ''GET /a/b?'', length ''x=1'')
   \<and> target_of (snd (http_parse_request_line
         (server_conn (CRLF @ ''POST http://h/p?q HTTP/1.1'' @ CRLF @ CRLF)))) =
       (HTTP_TARGET_ABSOLUTE_FORM, length (CRLF @ ''POST ''), length ''http://h/p'',
        length (CRLF @ ''POST http://h/p?''), length ''q'')
   \<and> target_of (snd (http_parse_request_line (server_conn (''GET h:80 HTTP/1.1'' @ CRLF @ CRLF)))) =
       (HTTP_TARGET_AUTHORITY_FORM, length ''GET '', length ''h:80'', 0, 0)
   \<and> target_of (snd (http_parse_request_line (server_conn (''GET * HTTP/1.1'' @ CRLF @ CRLF)))) =
       (HTTP_TARGET_ASTERISK_FORM, length ''GET '', length ''*'', 0, 0)
   \<and> fst (http_parse_request_line (server_conn (''GET abc HTTP/1.1'' @ CRLF @ CRLF))) =
       Some HTTP_STATUS_BAD_REQUEST
   \<and> target_of (snd (http_parse_request_line (server_conn (''GET /x:8://y HTTP/1.1'' @ CRLF @ CRLF)))) =
       (HTTP_TARGET_ORIGIN_FORM, length ''GET /'', length ''x:8://y'', 0, 0)"
  using
    request_target_classification [where ?hc0.0 = "server_conn (''GET /a/b?x=1 HTTP/1.1'' @ CRLF @ CRLF)"
      and pre = "''GET ''" and t = "''/a/b?x=1''" and d = "CHR ''1''" and rest = CRLF]
    request_target_classification [where ?hc0.0 = "server_conn (CRLF @ ''POST http://h/p?q HTTP/1.1'' @ CRLF @ CRLF)"
      and pre = "CRLF @ ''POST ''" and t = "''http://h/p?q''" and d = "CHR ''1''" and rest = CRLF]
    request_target_classification [where ?hc0.0 = "server_conn (''GET h:80 HTTP/1.1'' @ CRLF @ CRLF)"
      and pre = "''GET ''" and t = "''h:80''" and d = "CHR ''1''" and rest = CRLF]
    request_target_classification [where ?hc0.0 = "server_conn (''GET * HTTP/1.1'' @ CRLF @ CRLF)"
      and pre = "''GET ''" and t = "''*''" and d = "CHR ''1''" and rest = CRLF]
    request_target_classification [where ?hc0.0 = "server_conn (''GET abc HTTP/1.1'' @ CRLF @ CRLF)"
      and pre = "''GET ''" and t = "''abc''" and d = "CHR ''1''" and rest = CRLF]
    request_target_classification [where ?hc0.0 = "server_conn (''GET /x:8://y HTTP/1.1'' @ CRLF @ CRLF)"
      and pre = "''GET ''" and t = "''/x:8://y''" and d = "CHR ''1''" and rest = CRLF]
  by (simp add: conn_eval spec_request_target_def spec_split_query_def isdigit_def)

end
